theory Spec2Isabelle
  imports Main "HOL-Library.Char_ord" "HOL-Library.List_Lexorder" "HOL-Library.AList"
begin


section \<open>Python primitives used by \<^verbatim>\<open>pipenv/cli.py\<close>\<close>

text \<open>
  Strings are byte strings (\<^typ>\<open>string\<close>); the text handled by the modelled functions is
  ASCII (package names, file names, pip output). Exceptions and \<^verbatim>\<open>sys.exit\<close> are values
  of the type \<open>error\<close>.
\<close>

datatype error =
    IndexError
  | KeyError string
  | AttributeError
  | TypeError
  | UnboundLocalError
  | ValueError
  | IOError string
  | KeyboardInterrupt
  | SystemExit int

text \<open>\<^verbatim>\<open>os.name\<close> decides \<^verbatim>\<open>os.sep\<close> and the flavour of \<^verbatim>\<open>os.path\<close>.\<close>

datatype os_name = Posix | Nt

definition os_sep :: "os_name \<Rightarrow> string" where
  "os_sep os = (case os of Posix \<Rightarrow> [CHR 0x2F] | Nt \<Rightarrow> [CHR 0x5C])"

definition startswith :: "string \<Rightarrow> string \<Rightarrow> bool" where
  "startswith s p = (take (length p) s = p)"

definition endswith :: "string \<Rightarrow> string \<Rightarrow> bool" where
  "endswith s p = (length p \<le> length s \<and> drop (length s - length p) s = p)"

text \<open>
  \<^verbatim>\<open>s.split(sep)\<close> for a non-empty separator: the pieces between the non-overlapping
  occurrences of \<open>sep\<close>, found from the left. (Python raises ValueError on an empty
  separator; every call site of the source passes a non-empty one, and the model then
  returns the string unsplit.) The second argument accumulates the current piece.
\<close>

function py_split_from :: "string \<Rightarrow> string \<Rightarrow> string \<Rightarrow> string list" where
  "py_split_from sep cur [] = [cur]"
| "py_split_from sep cur (c # cs) =
     (if sep \<noteq> [] \<and> take (length sep) (c # cs) = sep
      then cur # py_split_from sep [] (drop (length sep) (c # cs))
      else py_split_from sep (cur @ [c]) cs)"
  by pat_completeness auto
termination
  by (relation "measure (\<lambda>(sep, cur, s). length s)") auto

definition py_split :: "string \<Rightarrow> string \<Rightarrow> string list" where
  "py_split s sep = py_split_from sep [] s"

text \<open>\<^verbatim>\<open>sep.join(xs)\<close>.\<close>

fun py_join :: "string \<Rightarrow> string list \<Rightarrow> string" where
  "py_join sep [] = []"
| "py_join sep [x] = x"
| "py_join sep (x # y # ys) = x @ sep @ py_join sep (y # ys)"

text \<open>\<^verbatim>\<open>sub in s\<close> for strings.\<close>

fun py_contains :: "string \<Rightarrow> string \<Rightarrow> bool" where
  "py_contains sub [] = (sub = [])"
| "py_contains sub (c # cs) = (take (length sub) (c # cs) = sub \<or> py_contains sub cs)"

text \<open>\<^verbatim>\<open>s.replace(old, new)\<close> for a non-empty \<open>old\<close>.\<close>

definition py_replace :: "string \<Rightarrow> string \<Rightarrow> string \<Rightarrow> string" where
  "py_replace s old new = py_join new (py_split s old)"

text \<open>\<^verbatim>\<open>s.isdigit()\<close>: at least one character, all of them decimal digits.\<close>

definition is_digit :: "char \<Rightarrow> bool" where
  "is_digit c = (CHR ''0'' \<le> c \<and> c \<le> CHR ''9'')"

definition py_isdigit :: "string \<Rightarrow> bool" where
  "py_isdigit s = (s \<noteq> [] \<and> list_all is_digit s)"

text \<open>\<^verbatim>\<open>s.strip()\<close>: the white space of the ASCII range is removed at both ends.\<close>

definition is_space :: "char \<Rightarrow> bool" where
  "is_space c = (c = CHR 0x20 \<or> (CHR 0x09 \<le> c \<and> c \<le> CHR 0x0D)
                 \<or> (CHR 0x1C \<le> c \<and> c \<le> CHR 0x1F))"

definition py_strip :: "string \<Rightarrow> string" where
  "py_strip s = rev (dropWhile is_space (rev (dropWhile is_space s)))"

text \<open>\<^verbatim>\<open>s.rfind(c)\<close> for a single character: the last index, or \<open>-1\<close>.\<close>

fun rfind_from :: "char \<Rightarrow> string \<Rightarrow> int \<Rightarrow> int \<Rightarrow> int" where
  "rfind_from c [] i best = best"
| "rfind_from c (x # xs) i best = rfind_from c xs (i + 1) (if x = c then i else best)"

definition py_rfind :: "string \<Rightarrow> char \<Rightarrow> int" where
  "py_rfind s c = rfind_from c s 0 (- 1)"

text \<open>
  \<^verbatim>\<open>os.path.splitext\<close> (genericpath.\_splitext): the extension starts at the last dot
  of the last path component, unless that component has only leading dots before it.
  On \<open>Nt\<close> both the backslash and the slash separate components.
\<close>

definition splitext :: "os_name \<Rightarrow> string \<Rightarrow> string \<times> string" where
  "splitext os p =
     (let sepIndex = (case os of Posix \<Rightarrow> py_rfind p (CHR 0x2F)
                       | Nt \<Rightarrow> max (py_rfind p (CHR 0x5C)) (py_rfind p (CHR 0x2F)));
          dotIndex = py_rfind p (CHR ''.'')
      in if dotIndex > sepIndex \<and>
            list_ex (\<lambda>ch. ch \<noteq> CHR ''.'')
              (take (nat (dotIndex - (sepIndex + 1))) (drop (nat (sepIndex + 1)) p))
         then (take (nat dotIndex) p, drop (nat dotIndex) p)
         else (p, []))"

section \<open>Version extraction from a downloaded file name\<close>

text \<open>
  \<^verbatim>\<open>parse_download_fname\<close>, lines 462-478. \<open>fname_stem\<close> is the value of \<^verbatim>\<open>fname\<close>
  after lines 463-469 (extension removed, the three wheel tags removed, \<^verbatim>\<open>.tar\<close>
  removed); \<open>drop_implicit_post\<close> is lines 474-476.
\<close>

definition fname_stem :: "os_name \<Rightarrow> string \<Rightarrow> string" where
  "fname_stem os fname =
     (let (fname1, fextension) = splitext os fname;
          fname2 = (if fextension = ''.whl''
                    then (let parts = py_split fname1 ''-''
                          in py_join ''-'' (take (length parts - 3) parts))
                    else fname1)
      in if endswith fname2 ''.tar'' then fst (splitext os fname2) else fname2)"

definition drop_implicit_post :: "string \<Rightarrow> string" where
  "drop_implicit_post version =
     (if py_contains ''-'' version \<and> py_isdigit (py_split version ''-'' ! 1)
      then py_split version ''-'' ! 0
      else version)"

definition parse_download_fname :: "os_name \<Rightarrow> string \<Rightarrow> string \<Rightarrow> string" where
  "parse_download_fname os fname name =
     drop_implicit_post (drop (length name + 1) (fname_stem os fname))"

section \<open>Parsing the output of pip\<close>

text \<open>
  The \<^verbatim>\<open>parse\<close> library, for the two formats the source uses, a literal followed by the
  field \<^verbatim>\<open>{file}\<close>: \<^verbatim>\<open>parse.parse(literal + '{file}', text)\<close> matches the whole text, the
  literal without regard to case, the field one character or more, and \<open>parse_file\<close>
  gives the field of the result (\<^verbatim>\<open>r['file']\<close>), or \<open>None\<close> as the library does.
\<close>

definition py_lower_char :: "char \<Rightarrow> char" where
  "py_lower_char c =
     (if CHR ''A'' \<le> c \<and> c \<le> CHR ''Z'' then char_of (of_char c + (32::nat)) else c)"

definition parse_file :: "string \<Rightarrow> string \<Rightarrow> string option" where
  "parse_file literal text =
     (if length literal < length text \<and>
         map py_lower_char (take (length literal) text) = map py_lower_char literal
      then Some (drop (length literal) text)
      else None)"

text \<open>
  \<^verbatim>\<open>requests.compat.unquote\<close>: each \<^verbatim>\<open>%XY\<close> with two hexadecimal digits becomes the
  byte \<open>XY\<close>; any other text is kept.
\<close>

definition hex_val :: "char \<Rightarrow> nat option" where
  "hex_val c =
     (if CHR ''0'' \<le> c \<and> c \<le> CHR ''9'' then Some (of_char c - 48)
      else if CHR ''a'' \<le> c \<and> c \<le> CHR ''f'' then Some (of_char c - 87)
      else if CHR ''A'' \<le> c \<and> c \<le> CHR ''F'' then Some (of_char c - 55)
      else None)"

fun unquote :: "string \<Rightarrow> string" where
  "unquote (c # h1 # h2 # rest) =
     (case (if c = CHR ''%'' then hex_val h1 else None, hex_val h2) of
        (Some a, Some b) \<Rightarrow> char_of (16 * a + b) # unquote rest
      | _ \<Rightarrow> c # unquote (h1 # h2 # rest))"
| "unquote s = s"

text \<open>Indexing a list at \<open>0\<close> and at \<open>-1\<close>: IndexError on the empty list.\<close>

definition py_first :: "'a list \<Rightarrow> error + 'a" where
  "py_first xs = (case xs of [] \<Rightarrow> Inl IndexError | x # _ \<Rightarrow> Inr x)"

definition py_last :: "'a list \<Rightarrow> error + 'a" where
  "py_last xs = (if xs = [] then Inl IndexError else Inr (last xs))"

text \<open>
  \<^verbatim>\<open>parse_install_output\<close>, lines 385-424. \<open>section_name\<close> is lines 398-402;
  \<^verbatim>\<open>pep423_name\<close> (of \<^verbatim>\<open>pipenv.utils\<close>) is the parameter \<open>pep423_name\<close>.
  \<open>scan_lines\<close> is the inner loop over the lines of one section, which stops at the
  first line that matches (\<^verbatim>\<open>break\<close>); \<open>parse_sections\<close> is the outer loop, with the
  list \<^verbatim>\<open>names\<close> as accumulator.
\<close>

definition section_name :: "(string \<Rightarrow> string) \<Rightarrow> string list \<Rightarrow> error + string" where
  "section_name pep423_name lines =
     (case py_first lines of Inl e \<Rightarrow> Inl e
      | Inr line0 \<Rightarrow>
     (case py_first (py_split line0 ''('') of Inl e \<Rightarrow> Inl e
      | Inr name1 \<Rightarrow>
     (case py_first (py_split name1 '';'') of Inl e \<Rightarrow> Inl e
      | Inr name2 \<Rightarrow> Inr (pep423_name (py_strip name2)))))"

definition match_line :: "string \<Rightarrow> string option" where
  "match_line line =
     (case parse_file ''Saved '' (py_strip line) of
        None \<Rightarrow> parse_file ''Using cached '' (py_strip line)
      | Some f \<Rightarrow> Some f)"

definition saved_fname :: "os_name \<Rightarrow> string \<Rightarrow> error + string" where
  "saved_fname os file =
     (case py_last (py_split file (os_sep os)) of Inl e \<Rightarrow> Inl e
      | Inr fname \<Rightarrow>
          Inr (unquote (if startswith fname ''./'' then drop 2 fname else fname)))"

fun scan_lines :: "os_name \<Rightarrow> string \<Rightarrow> string list \<Rightarrow> error + (string \<times> string) option" where
  "scan_lines os name [] = Inr None"
| "scan_lines os name (line # lines) =
     (case match_line line of
        None \<Rightarrow> scan_lines os name lines
      | Some file \<Rightarrow>
          (case saved_fname os file of Inl e \<Rightarrow> Inl e
           | Inr fname \<Rightarrow> Inr (Some (fname, name))))"

fun parse_sections ::
  "(string \<Rightarrow> string) \<Rightarrow> os_name \<Rightarrow> string list \<Rightarrow> (string \<times> string) list
     \<Rightarrow> error + (string \<times> string) list" where
  "parse_sections pep423_name os [] names = Inr names"
| "parse_sections pep423_name os (section # sections) names =
     (let lines = py_split section ''\<newline>'' in
      case section_name pep423_name lines of Inl e \<Rightarrow> Inl e
      | Inr name \<Rightarrow>
     (case scan_lines os name lines of Inl e \<Rightarrow> Inl e
      | Inr None \<Rightarrow> parse_sections pep423_name os sections names
      | Inr (Some p) \<Rightarrow> parse_sections pep423_name os sections (names @ [p])))"

definition parse_install_output ::
  "(string \<Rightarrow> string) \<Rightarrow> os_name \<Rightarrow> string \<Rightarrow> error + (string \<times> string) list" where
  "parse_install_output pep423_name os output =
     parse_sections pep423_name os (py_split output ''Collecting '') []"

text \<open>A section has a save confirmation when one of its lines matches a format.\<close>

definition has_confirmation :: "string \<Rightarrow> bool" where
  "has_confirmation section =
     list_ex (\<lambda>line. match_line line \<noteq> None) (py_split section ''\<newline>'')"

section \<open>External commands, files and the project\<close>

text \<open>
  JSON documents as Python holds them after \<^verbatim>\<open>json.load\<close>: a dictionary is the list of
  its items in insertion order, \<^verbatim>\<open>None\<close> is \<open>JNull\<close>.
\<close>

datatype json =
    JNull
  | JBool bool
  | JInt int
  | JStr string
  | JList "json list"
  | JDict "(string \<times> json) list"

text \<open>The command object of \<^verbatim>\<open>delegator.run\<close>: the three fields the source reads.\<close>

record cmd_result =
  return_code :: int
  out :: string
  err :: string

text \<open>An entry of \<^verbatim>\<open>project.sources\<close>.\<close>

record source =
  source_name :: string
  url :: string
  verify_ssl :: bool

text \<open>A package as \<^verbatim>\<open>resolve_deps\<close> returns it; the hashes are there when asked for.\<close>

record resolved =
  dep_name :: string
  dep_version :: string
  dep_hashes :: "json option"

datatype stream = Stdout | Stderr

text \<open>
  Calls of the two functions whose invocation the properties below are about, with
  their arguments: \<^verbatim>\<open>do_lock(no_hashes, verbose)\<close> and
  \<^verbatim>\<open>do_install_dependencies(dev, only, bare, requirements, allow_global, ignore_hashes,
  skip_lock, verbose)\<close>.
\<close>

datatype call =
    Call_do_lock bool bool
  | Call_do_install_dependencies bool bool bool bool bool bool bool bool

definition is_lock_call :: "call \<Rightarrow> bool" where
  "is_lock_call c = (case c of Call_do_lock _ _ \<Rightarrow> True | _ \<Rightarrow> False)"

text \<open>
  The state that the functions act on. \<open>world\<close> is whatever the external programs act
  on (the virtualenv, the package indexes); \<open>files\<close> are the files that the functions
  themselves read and write. The other fields only record what happened, oldest first:
  the commands given to \<^verbatim>\<open>delegator.run\<close> with their results, the lines given to
  \<^verbatim>\<open>click.echo\<close>, the content of a file after each operation on it, the calls, and the
  results of \<^verbatim>\<open>resolve_deps\<close>.
\<close>

record 'w state =
  world :: 'w
  files :: "string \<rightharpoonup> string"
  runs :: "(string \<times> cmd_result) list"
  echoed :: "(stream \<times> string) list"
  file_log :: "(string \<times> string) list"
  calls :: "call list"
  resolutions :: "resolved list list"

text \<open>
  The project (the object \<^verbatim>\<open>project\<close> of \<^verbatim>\<open>pipenv.project\<close>, read after
  \<^verbatim>\<open>ensure_pipfile\<close>) and the helpers that are not in \<^verbatim>\<open>cli.py\<close>, as parameters:
  \<^item> \<open>delegator\<close> is \<^verbatim>\<open>delegator.run\<close>: the command, the files it may read and the
    world give the result and the new world;
  \<^item> \<open>mkstemp\<close> is \<^verbatim>\<open>tempfile.mkstemp\<close>: the directory (with its separator) and the
    random part of the name;
  \<^item> \<open>crayons\<close> is the colouring of \<^verbatim>\<open>crayons\<close>: colour, boldness, text;
  \<^item> \<open>global_pip\<close> is \<^verbatim>\<open>distutils.spawn.find_executable('pip')\<close>;
  \<^item> \<open>pipfile_hash\<close> is \<^verbatim>\<open>pipfile.load(project.pipfile_location).hash\<close>;
  \<^item> \<open>project_lockfile\<close> is \<^verbatim>\<open>project._lockfile\<close>;
  \<^item> \<open>json_loads\<close>, \<open>convert_deps_to_pip\<close>, \<open>split_vcs\<close>, \<open>resolve_deps\<close>,
    \<open>shellquote\<close> are the functions of these names, \<open>pep508checker_file\<close> is
    \<^verbatim>\<open>pep508checker.__file__.rstrip('cdo')\<close>.
\<close>

record 'w project =
  host_os :: os_name
  virtualenv_location :: string
  global_pip :: "string option"
  project_sources :: "source list"
  download_location :: string
  lockfile_location :: string
  pipfile_hash :: string
  project_lockfile :: json
  project_packages :: json
  project_dev_packages :: json
  delegator :: "string \<Rightarrow> (string \<rightharpoonup> string) \<Rightarrow> 'w \<Rightarrow> cmd_result \<times> 'w"
  mkstemp :: "'w \<Rightarrow> (string \<times> string) \<times> 'w"
  crayons :: "string \<Rightarrow> bool \<Rightarrow> string \<Rightarrow> string"
  json_loads :: "string \<Rightarrow> error + json"
  convert_deps_to_pip :: "json \<Rightarrow> string list"
  split_vcs :: "json \<Rightarrow> json"
  resolve_deps :: "string list \<Rightarrow> source list \<Rightarrow> bool \<Rightarrow> bool \<Rightarrow> 'w \<Rightarrow> (error + resolved list) \<times> 'w"
  shellquote :: "string \<Rightarrow> string"
  pep508checker_file :: string

abbreviation dq :: string where
  "dq \<equiv> [CHR 0x22]"

definition click_echo :: "stream \<Rightarrow> string \<Rightarrow> 'w state \<Rightarrow> 'w state" where
  "click_echo st text s = s\<lparr>echoed := echoed s @ [(st, text)]\<rparr>"

definition delegator_run :: "'w project \<Rightarrow> string \<Rightarrow> 'w state \<Rightarrow> cmd_result \<times> 'w state" where
  "delegator_run ctx cmd s =
     (case delegator ctx cmd (files s) (world s) of
        (c, w) \<Rightarrow> (c, s\<lparr>world := w, runs := runs s @ [(cmd, c)]\<rparr>))"

text \<open>\<^verbatim>\<open>open(path, 'w')\<close> empties the file; \<^verbatim>\<open>f.write(data)\<close> appends to it.\<close>

definition open_w :: "string \<Rightarrow> 'w state \<Rightarrow> 'w state" where
  "open_w path s = s\<lparr>files := (files s)(path \<mapsto> []), file_log := file_log s @ [(path, [])]\<rparr>"

definition file_write :: "string \<Rightarrow> string \<Rightarrow> 'w state \<Rightarrow> 'w state" where
  "file_write path data s =
     (let content = (case files s path of None \<Rightarrow> data | Some old \<Rightarrow> old @ data)
      in s\<lparr>files := (files s)(path \<mapsto> content), file_log := file_log s @ [(path, content)]\<rparr>)"

text \<open>\<^verbatim>\<open>which\<close> and \<^verbatim>\<open>which_pip\<close>, lines 727-740.\<close>

definition which :: "'w project \<Rightarrow> string \<Rightarrow> string" where
  "which ctx command =
     (case host_os ctx of
        Nt \<Rightarrow>
          (if endswith command ''.py''
           then py_join (os_sep Nt) [virtualenv_location ctx, ''Scripts'' @ [CHR 0x5C] @ command]
           else py_join (os_sep Nt)
                  [virtualenv_location ctx, ''Scripts'' @ [CHR 0x5C] @ command @ ''.exe''])
      | Posix \<Rightarrow> py_join (os_sep Posix) [virtualenv_location ctx, ''bin/'' @ command])"

definition which_pip :: "'w project \<Rightarrow> bool \<Rightarrow> string option" where
  "which_pip ctx allow_global =
     (if allow_global then global_pip ctx else Some (which ctx ''pip''))"

text \<open>What \<^verbatim>\<open>str.format\<close> writes for a value that is a string or \<^verbatim>\<open>None\<close>.\<close>

definition format_opt :: "string option \<Rightarrow> string" where
  "format_opt v = (case v of None \<Rightarrow> ''None'' | Some x \<Rightarrow> x)"

section \<open>Installing and downloading one package\<close>

text \<open>
  \<^verbatim>\<open>pip_install\<close>, lines 674-715. \<open>truthy\<close> is the test \<^verbatim>\<open>if r:\<close>; \<open>install_reqs_of\<close>
  is lines 684-689; \<open>skip_hash_check\<close> is lines 692-698 and gives the new value of
  \<^verbatim>\<open>ignore_hashes\<close>; \<open>pip_command_of\<close> is lines 700-705; \<open>pip_install_sources\<close> is the
  loop over \<^verbatim>\<open>project.sources\<close>, with \<^verbatim>\<open>ignore_hashes\<close> and the last result \<^verbatim>\<open>c\<close> as
  loop variables (\<^verbatim>\<open>c\<close> is unbound when there is no source).
\<close>

definition truthy :: "string option \<Rightarrow> bool" where
  "truthy r = (case r of None \<Rightarrow> False | Some p \<Rightarrow> p \<noteq> [])"

definition install_reqs_of :: "string option \<Rightarrow> string option \<Rightarrow> error + string" where
  "install_reqs_of r package_name =
     (if truthy r then Inr ('' -r '' @ format_opt r)
      else (case package_name of
              None \<Rightarrow> Inl AttributeError
            | Some p \<Rightarrow>
                (if startswith p ''-e ''
                 then Inr ('' -e '' @ dq @ (py_split p ''-e '' ! 1) @ dq)
                 else Inr ('' '' @ dq @ p @ dq))))"

definition skip_hash_check ::
  "string option \<Rightarrow> string \<Rightarrow> bool \<Rightarrow> (string \<rightharpoonup> string) \<Rightarrow> error + bool" where
  "skip_hash_check r install_reqs ignore_hashes fs =
     (if truthy r
      then (case fs (format_opt r) of
              None \<Rightarrow> Inl (IOError (format_opt r))
            | Some content \<Rightarrow>
                Inr (if \<not> py_contains ''--hash'' content then True else ignore_hashes))
      else Inr (if \<not> py_contains ''--hash'' install_reqs then True else ignore_hashes))"

definition pip_command_of ::
  "'w project \<Rightarrow> bool \<Rightarrow> bool \<Rightarrow> string \<Rightarrow> bool \<Rightarrow> source \<Rightarrow> string" where
  "pip_command_of ctx allow_global no_deps install_reqs ignore_hashes src =
     dq @ format_opt (which_pip ctx allow_global) @ dq @ '' install ''
       @ (if no_deps then ''--no-deps'' else [])
       @ '' '' @ (if \<not> ignore_hashes then install_reqs @ '' --require-hashes'' else install_reqs)
       @ '' -i '' @ url src @ '' --exists-action w''"

fun pip_install_sources ::
  "'w project \<Rightarrow> string option \<Rightarrow> string option \<Rightarrow> bool \<Rightarrow> bool \<Rightarrow> bool \<Rightarrow> source list
     \<Rightarrow> bool \<Rightarrow> cmd_result option \<Rightarrow> 'w state \<Rightarrow> (error + cmd_result) \<times> 'w state" where
  "pip_install_sources ctx package_name r allow_global no_deps verbose [] ignore_hashes c s =
     (case c of None \<Rightarrow> (Inl UnboundLocalError, s) | Some res \<Rightarrow> (Inr res, s))"
| "pip_install_sources ctx package_name r allow_global no_deps verbose (src # rest) ignore_hashes c s =
     (case install_reqs_of r package_name of
        Inl e \<Rightarrow> (Inl e, s)
      | Inr install_reqs \<Rightarrow>
     (case skip_hash_check r install_reqs ignore_hashes (files s) of
        Inl e \<Rightarrow> (Inl e, s)
      | Inr ignore_hashes' \<Rightarrow>
     (case delegator_run ctx
             (pip_command_of ctx allow_global no_deps install_reqs ignore_hashes' src)
             (if verbose
              then click_echo Stderr
                     (''$ '' @ pip_command_of ctx allow_global no_deps install_reqs ignore_hashes' src) s
              else s) of
        (res, s') \<Rightarrow>
          (if return_code res = 0 then (Inr res, s')
           else pip_install_sources ctx package_name r allow_global no_deps verbose rest
                  ignore_hashes' (Some res) s'))))"

definition pip_install ::
  "'w project \<Rightarrow> string option \<Rightarrow> string option \<Rightarrow> bool \<Rightarrow> bool \<Rightarrow> bool \<Rightarrow> bool
     \<Rightarrow> 'w state \<Rightarrow> (error + cmd_result) \<times> 'w state" where
  "pip_install ctx package_name r allow_global ignore_hashes no_deps verbose s =
     (if \<not> ignore_hashes \<and> r = None
      then (case mkstemp ctx (world s) of
              ((dir, rnd), w) \<Rightarrow>
                (let path = dir @ ''pipenv-'' @ rnd @ ''-requirement.txt'';
                     s1 = open_w path (s\<lparr>world := w\<rparr>)
                 in case package_name of
                      None \<Rightarrow> (Inl TypeError, s1)
                    | Some p \<Rightarrow>
                        pip_install_sources ctx package_name (Some path) allow_global no_deps
                          verbose (project_sources ctx) ignore_hashes None
                          (file_write path p s1)))
      else pip_install_sources ctx package_name r allow_global no_deps verbose
             (project_sources ctx) ignore_hashes None s)"




section \<open>Installing the dependencies\<close>

text \<open>\<^verbatim>\<open>format_pip_output\<close> and \<^verbatim>\<open>format_pip_error\<close>, lines 775-795.\<close>

definition format_pip_output :: "string \<Rightarrow> string" where
  "format_pip_output output =
     py_join ''\<newline>''
       (map (\<lambda>line. if py_contains ''(from -r'' line
                     then hd (py_split line ''(from -r'') else line)
            (py_split output ''\<newline>''))"

definition format_pip_error :: "'w project \<Rightarrow> string \<Rightarrow> string" where
  "format_pip_error ctx error0 =
     (let error1 = py_replace error0 ''Expected'' (crayons ctx ''green'' True ''Expected'');
          error2 = py_replace error1 ''Got'' (crayons ctx ''red'' True ''Got'');
          error3 = py_replace error2
                     ''THESE PACKAGES DO NOT MATCH THE HASHES FROM THE REQUIREMENTS FILE''
                     (crayons ctx ''red'' True
                        ''THESE PACKAGES DO NOT MATCH THE HASHES FROM Pipfile.lock!'');
          error4 = py_replace error3 ''someone may have tampered with them''
                     (crayons ctx ''red'' False ''someone may have tampered with them'')
      in py_replace error4 ''option to pip install'' (''option to '' @ [CHR 0x27] @ ''pipenv install'' @ [CHR 0x27]))"

text \<open>
  The loop of \<^verbatim>\<open>do_install_dependencies\<close>, lines 330-339, over \<^verbatim>\<open>deps_list\<close>.
  \<^verbatim>\<open>progress.bar\<close> yields the entries in order.
\<close>

definition report_failure :: "'w project \<Rightarrow> cmd_result \<Rightarrow> 'w state \<Rightarrow> 'w state" where
  "report_failure ctx c s =
     click_echo Stdout (crayons ctx ''blue'' False (format_pip_error ctx (err c)))
       (click_echo Stdout (crayons ctx ''blue'' False (format_pip_output (out c)))
          (click_echo Stdout (crayons ctx ''red'' False ''An error occured while installing!'') s))"

fun install_deps_list ::
  "'w project \<Rightarrow> bool \<Rightarrow> bool \<Rightarrow> bool \<Rightarrow> (string \<times> bool) list \<Rightarrow> 'w state
     \<Rightarrow> (error + unit) \<times> 'w state" where
  "install_deps_list ctx allow_global no_deps verbose [] s = (Inr (), s)"
| "install_deps_list ctx allow_global no_deps verbose ((dep, ignore_hash) # rest) s =
     (case pip_install ctx (Some dep) None allow_global ignore_hash no_deps verbose s of
        (Inl e, s') \<Rightarrow> (Inl e, s')
      | (Inr c, s') \<Rightarrow>
          (if return_code c \<noteq> 0
           then (Inl (SystemExit (return_code c)), report_failure ctx c s')
           else install_deps_list ctx allow_global no_deps verbose rest s'))"

section \<open>Python operations on JSON values\<close>

text \<open>\<^verbatim>\<open>d[key]\<close> for a string key: only a dictionary can be indexed by a string.\<close>

definition py_getitem :: "json \<Rightarrow> string \<Rightarrow> error + json" where
  "py_getitem d key =
     (case d of
        JDict kvs \<Rightarrow> (case map_of kvs key of None \<Rightarrow> Inl (KeyError key) | Some v \<Rightarrow> Inr v)
      | _ \<Rightarrow> Inl TypeError)"

text \<open>\<^verbatim>\<open>d.get(key, default)\<close>: only a dictionary has the method.\<close>

definition py_get :: "json \<Rightarrow> string \<Rightarrow> json \<Rightarrow> error + json" where
  "py_get d key dflt =
     (case d of
        JDict kvs \<Rightarrow> Inr (case map_of kvs key of None \<Rightarrow> dflt | Some v \<Rightarrow> v)
      | _ \<Rightarrow> Inl AttributeError)"

text \<open>\<^verbatim>\<open>d[key] = v\<close> for a string key.\<close>

definition py_setitem :: "json \<Rightarrow> string \<Rightarrow> json \<Rightarrow> error + json" where
  "py_setitem d key v =
     (case d of JDict kvs \<Rightarrow> Inr (JDict (AList.update key v kvs)) | _ \<Rightarrow> Inl TypeError)"

text \<open>
  \<^verbatim>\<open>d.update(other)\<close>. The sections of a lock file are dictionaries; an \<open>other\<close> that is
  not a dictionary is answered with TypeError (Python also accepts an iterable of pairs).
\<close>

definition py_update :: "json \<Rightarrow> json \<Rightarrow> error + json" where
  "py_update d other =
     (case d of
        JDict kvs \<Rightarrow>
          (case other of
             JDict kvs' \<Rightarrow> Inr (JDict (foldl (\<lambda>acc (k, v). AList.update k v acc) kvs kvs'))
           | _ \<Rightarrow> Inl TypeError)
      | _ \<Rightarrow> Inl AttributeError)"

text \<open>\<^verbatim>\<open>len(v)\<close>.\<close>

definition py_len :: "json \<Rightarrow> error + nat" where
  "py_len v =
     (case v of
        JDict kvs \<Rightarrow> Inr (length kvs)
      | JList xs \<Rightarrow> Inr (length xs)
      | JStr t \<Rightarrow> Inr (length t)
      | _ \<Rightarrow> Inl TypeError)"

definition is_dict :: "json \<Rightarrow> bool" where
  "is_dict v = (case v of JDict _ \<Rightarrow> True | _ \<Rightarrow> False)"

section \<open>The installation plan\<close>

text \<open>
  \<^verbatim>\<open>do_install_dependencies\<close>, lines 284-339. \<open>load_lockfile\<close> is lines 291-299: the
  variable \<^verbatim>\<open>lockfile\<close> stays unbound (\<open>None\<close>) when the Pipfile is used and \<^verbatim>\<open>bare\<close> is
  set. \<open>del_hash\<close> is lines 316-317 for one value, \<open>remove_hashes\<close> the loop of line 315.
  \<open>deps_list_of\<close> is lines 305-322.
\<close>

definition load_lockfile ::
  "'w project \<Rightarrow> bool \<Rightarrow> bool \<Rightarrow> bool \<Rightarrow> 'w state \<Rightarrow> (error + json option) \<times> 'w state" where
  "load_lockfile ctx skip_lock only bare s =
     (if skip_lock \<or> only \<or> files s (lockfile_location ctx) = None
      then (if \<not> bare
            then (Inr (Some (split_vcs ctx (project_lockfile ctx))),
                  click_echo Stdout
                    (crayons ctx ''yellow'' False ''Installing dependencies from Pipfile...'') s)
            else (Inr None, s))
      else (let s1 = (if \<not> bare
                      then click_echo Stdout
                             (crayons ctx ''yellow'' False
                                ''Installing dependencies from Pipfile.lock...'') s
                      else s)
            in case files s (lockfile_location ctx) of
                 None \<Rightarrow> (Inl (IOError (lockfile_location ctx)), s1)
               | Some text \<Rightarrow>
                   (case json_loads ctx text of
                      Inl e \<Rightarrow> (Inl e, s1)
                    | Inr j \<Rightarrow> (Inr (Some (split_vcs ctx j)), s1))))"

definition del_hash :: "json \<Rightarrow> error + json" where
  "del_hash v =
     (case v of
        JDict kvs \<Rightarrow> Inr (JDict (AList.delete ''hash'' kvs))
      | JStr t \<Rightarrow> (if py_contains ''hash'' t then Inl TypeError else Inr v)
      | JList xs \<Rightarrow> (if JStr ''hash'' \<in> set xs then Inl TypeError else Inr v)
      | _ \<Rightarrow> Inl TypeError)"

fun remove_hashes :: "(string \<times> json) list \<Rightarrow> error + (string \<times> json) list" where
  "remove_hashes [] = Inr []"
| "remove_hashes ((k, v) # kvs) =
     (case del_hash v of
        Inl e \<Rightarrow> Inl e
      | Inr v' \<Rightarrow> (case remove_hashes kvs of Inl e \<Rightarrow> Inl e | Inr kvs' \<Rightarrow> Inr ((k, v') # kvs')))"

definition add_develop :: "json \<Rightarrow> json \<Rightarrow> json \<Rightarrow> error + json \<times> json" where
  "add_develop lockfile deps vcs_deps =
     (case deps of
        JDict _ \<Rightarrow>
          (case py_getitem lockfile ''develop'' of Inl e \<Rightarrow> Inl e
           | Inr develop \<Rightarrow>
          (case py_update deps develop of Inl e \<Rightarrow> Inl e
           | Inr deps' \<Rightarrow>
          (case vcs_deps of
             JDict _ \<Rightarrow>
               (case py_get lockfile ''develop-vcs'' (JDict []) of Inl e \<Rightarrow> Inl e
                | Inr develop_vcs \<Rightarrow>
               (case py_update vcs_deps develop_vcs of Inl e \<Rightarrow> Inl e
                | Inr vcs_deps' \<Rightarrow> Inr (deps', vcs_deps')))
           | _ \<Rightarrow> Inl AttributeError)))
      | _ \<Rightarrow> Inl AttributeError)"

definition deps_list_of ::
  "'w project \<Rightarrow> bool \<Rightarrow> bool \<Rightarrow> bool \<Rightarrow> json option \<Rightarrow> error + (string \<times> bool) list" where
  "deps_list_of ctx dev only ignore_hashes lockfile_var =
     (case lockfile_var of
        None \<Rightarrow> Inl UnboundLocalError
      | Some lockfile \<Rightarrow>
     (case (if \<not> only then py_getitem lockfile ''default'' else Inr (JDict [])) of
        Inl e \<Rightarrow> Inl e
      | Inr deps0 \<Rightarrow>
     (case py_get lockfile ''default-vcs'' (JDict []) of
        Inl e \<Rightarrow> Inl e
      | Inr vcs_deps0 \<Rightarrow>
     (case (if dev then add_develop lockfile deps0 vcs_deps0 else Inr (deps0, vcs_deps0)) of
        Inl e \<Rightarrow> Inl e
      | Inr (deps1, vcs_deps) \<Rightarrow>
     (case (if ignore_hashes
            then (case deps1 of
                    JDict kvs \<Rightarrow>
                      (case remove_hashes kvs of Inl e \<Rightarrow> Inl e | Inr kvs' \<Rightarrow> Inr (JDict kvs'))
                  | _ \<Rightarrow> Inl AttributeError)
            else Inr deps1) of
        Inl e \<Rightarrow> Inl e
      | Inr deps \<Rightarrow>
     (case py_len vcs_deps of
        Inl e \<Rightarrow> Inl e
      | Inr n \<Rightarrow>
          Inr (map (\<lambda>d. (d, ignore_hashes)) (convert_deps_to_pip ctx deps)
               @ (if n \<noteq> 0 then map (\<lambda>d. (d, True)) (convert_deps_to_pip ctx vcs_deps)
                  else []))))))))"

definition do_install_dependencies ::
  "'w project \<Rightarrow> bool \<Rightarrow> bool \<Rightarrow> bool \<Rightarrow> bool \<Rightarrow> bool \<Rightarrow> bool \<Rightarrow> bool \<Rightarrow> bool \<Rightarrow> 'w state
     \<Rightarrow> (error + unit) \<times> 'w state" where
  "do_install_dependencies ctx dev only bare requirements allow_global ignore_hashes skip_lock
       verbose s =
     (case load_lockfile ctx skip_lock only (if requirements then True else bare)
             (s\<lparr>calls := calls s @ [Call_do_install_dependencies dev only bare requirements
                                       allow_global ignore_hashes skip_lock verbose]\<rparr>) of
        (Inl e, s1) \<Rightarrow> (Inl e, s1)
      | (Inr lockfile_var, s1) \<Rightarrow>
     (case deps_list_of ctx dev only ignore_hashes lockfile_var of
        Inl e \<Rightarrow> (Inl e, s1)
      | Inr deps_list \<Rightarrow>
          (if requirements
           then (Inl (SystemExit 0), click_echo Stdout (py_join ''\<newline>'' (map fst deps_list)) s1)
           else install_deps_list ctx allow_global (\<not> skip_lock) verbose deps_list s1)))"

section \<open>Writing a JSON document\<close>

text \<open>
  \<^verbatim>\<open>json.dump(obj, f, indent=4, separators=(',', ': '), sort_keys=True)\<close> of the standard
  library. \<open>escape_char\<close> is the escaping of a character inside a string (with
  \<^verbatim>\<open>ensure_ascii\<close>); \<open>newline_indent\<close> is the line break followed by four spaces for each
  level of nesting; the items of a dictionary are written in the order of their keys.
\<close>

definition digit_char :: "nat \<Rightarrow> char" where
  "digit_char d = char_of (48 + d)"

function show_nat :: "nat \<Rightarrow> string" where
  "show_nat n = (if n < 10 then [digit_char n] else show_nat (n div 10) @ [digit_char (n mod 10)])"
  by pat_completeness auto
termination
  by (relation "measure id") auto

definition show_int :: "int \<Rightarrow> string" where
  "show_int i = (if i < 0 then ''-'' @ show_nat (nat (- i)) else show_nat (nat i))"

definition hex_char :: "nat \<Rightarrow> char" where
  "hex_char d = (if d < 10 then char_of (48 + d) else char_of (87 + d))"

definition escape_char :: "char \<Rightarrow> string" where
  "escape_char c =
     (if c = CHR 0x22 then [CHR 0x5C, CHR 0x22]
      else if c = CHR 0x5C then [CHR 0x5C, CHR 0x5C]
      else if c = CHR 0x0A then [CHR 0x5C, CHR ''n'']
      else if c = CHR 0x0D then [CHR 0x5C, CHR ''r'']
      else if c = CHR 0x09 then [CHR 0x5C, CHR ''t'']
      else if c = CHR 0x0C then [CHR 0x5C, CHR ''f'']
      else if c = CHR 0x08 then [CHR 0x5C, CHR ''b'']
      else if c < CHR 0x20 \<or> CHR 0x7E < c
           then [CHR 0x5C, CHR ''u'', CHR ''0'', CHR ''0'',
                 hex_char (of_char c div 16), hex_char (of_char c mod 16)]
      else [c])"

definition encode_string :: "string \<Rightarrow> string" where
  "encode_string t = dq @ concat (map escape_char t) @ dq"

definition newline_indent :: "nat \<Rightarrow> string" where
  "newline_indent level = CHR 0x0A # replicate (4 * level) (CHR '' '')"

fun json_dumps_at :: "nat \<Rightarrow> json \<Rightarrow> string" where
  "json_dumps_at level JNull = ''null''"
| "json_dumps_at level (JBool b) = (if b then ''true'' else ''false'')"
| "json_dumps_at level (JInt i) = show_int i"
| "json_dumps_at level (JStr t) = encode_string t"
| "json_dumps_at level (JList xs) =
     (if xs = [] then ''[]''
      else ''['' @ newline_indent (Suc level)
           @ py_join ('','' @ newline_indent (Suc level)) (map (json_dumps_at (Suc level)) xs)
           @ newline_indent level @ '']'')"
| "json_dumps_at level (JDict kvs) =
     (if kvs = [] then ''{}''
      else ''{'' @ newline_indent (Suc level)
           @ py_join ('','' @ newline_indent (Suc level))
               (map (\<lambda>kt. encode_string (fst kt) @ '': '' @ snd kt)
                  (sort_key fst (map (\<lambda>kv. (fst kv, json_dumps_at (Suc level) (snd kv))) kvs)))
           @ newline_indent level @ ''}'')"

definition json_dumps :: "json \<Rightarrow> string" where
  "json_dumps v = json_dumps_at 0 v"

section \<open>Locking\<close>

text \<open>
  \<^verbatim>\<open>do_lock\<close>, lines 505-556. \<open>cleanup_section\<close> is lines 516-518 for one section:
  the entries whose value is not a dictionary are deleted. \<open>add_results\<close> is the loop
  of lines 524-527 (and 537-540). \<open>run_resolve_deps\<close> is the call of \<^verbatim>\<open>resolve_deps\<close>.
  \<open>write_lockfile\<close> is lines 551-554: the destination is opened for writing, the
  document is written, then the newline.
\<close>

definition cleanup_section :: "json \<Rightarrow> string \<Rightarrow> error + json" where
  "cleanup_section lockfile sec =
     (case py_getitem lockfile sec of
        Inl e \<Rightarrow> Inl e
      | Inr (JDict kvs) \<Rightarrow> py_setitem lockfile sec (JDict (filter (\<lambda>kv. is_dict (snd kv)) kvs))
      | Inr _ \<Rightarrow> Inl AttributeError)"

definition lock_entry :: "bool \<Rightarrow> resolved \<Rightarrow> error + json" where
  "lock_entry no_hashes dep =
     (if no_hashes then Inr (JDict [(''version'', JStr (''=='' @ dep_version dep))])
      else (case dep_hashes dep of
              None \<Rightarrow> Inl (KeyError ''hashes'')
            | Some h \<Rightarrow>
                Inr (JDict [(''version'', JStr (''=='' @ dep_version dep)), (''hashes'', h)])))"

fun add_results :: "bool \<Rightarrow> string \<Rightarrow> resolved list \<Rightarrow> json \<Rightarrow> error + json" where
  "add_results no_hashes sec [] lockfile = Inr lockfile"
| "add_results no_hashes sec (dep # deps) lockfile =
     (case py_getitem lockfile sec of
        Inl e \<Rightarrow> Inl e
      | Inr (JDict kvs) \<Rightarrow>
          (case lock_entry no_hashes dep of
             Inl e \<Rightarrow> Inl e
           | Inr entry \<Rightarrow>
               (case py_setitem lockfile sec (JDict (AList.update (dep_name dep) entry kvs)) of
                  Inl e \<Rightarrow> Inl e
                | Inr lockfile' \<Rightarrow> add_results no_hashes sec deps lockfile'))
      | Inr _ \<Rightarrow> Inl AttributeError)"

definition run_resolve_deps ::
  "'w project \<Rightarrow> string list \<Rightarrow> bool \<Rightarrow> bool \<Rightarrow> 'w state \<Rightarrow> (error + resolved list) \<times> 'w state" where
  "run_resolve_deps ctx deps verbose hashes s =
     (case resolve_deps ctx deps (project_sources ctx) verbose hashes (world s) of
        (Inl e, w) \<Rightarrow> (Inl e, s\<lparr>world := w\<rparr>)
      | (Inr results, w) \<Rightarrow>
          (Inr results, s\<lparr>world := w, resolutions := resolutions s @ [results]\<rparr>))"

definition set_markers :: "json \<Rightarrow> json \<Rightarrow> error + json" where
  "set_markers lockfile markers =
     (case py_getitem lockfile ''_meta'' of
        Inl e \<Rightarrow> Inl e
      | Inr meta \<Rightarrow>
          (case py_setitem meta ''host-environment-markers'' markers of
             Inl e \<Rightarrow> Inl e
           | Inr meta' \<Rightarrow> py_setitem lockfile ''_meta'' meta'))"

definition write_lockfile :: "'w project \<Rightarrow> json \<Rightarrow> 'w state \<Rightarrow> 'w state" where
  "write_lockfile ctx lockfile s =
     file_write (lockfile_location ctx) ''\<newline>''
       (file_write (lockfile_location ctx) (json_dumps lockfile)
          (open_w (lockfile_location ctx) s))"

definition locking_message :: "'w project \<Rightarrow> string \<Rightarrow> string" where
  "locking_message ctx label =
     crayons ctx ''yellow'' False
       (''Locking '' @ crayons ctx ''red'' False label @ '' dependencies...'')"

definition do_lock ::
  "'w project \<Rightarrow> bool \<Rightarrow> bool \<Rightarrow> 'w state \<Rightarrow> (error + unit) \<times> 'w state" where
  "do_lock ctx no_hashes verbose s =
     (let s0 = click_echo Stderr (locking_message ctx ''[dev-packages]'')
                 (s\<lparr>calls := calls s @ [Call_do_lock no_hashes verbose]\<rparr>)
      in
      case cleanup_section (project_lockfile ctx) ''default'' of
        Inl e \<Rightarrow> (Inl e, s0)
      | Inr lockfile1 \<Rightarrow>
     (case cleanup_section lockfile1 ''develop'' of
        Inl e \<Rightarrow> (Inl e, s0)
      | Inr lockfile2 \<Rightarrow>
     (case run_resolve_deps ctx (convert_deps_to_pip ctx (project_dev_packages ctx)) verbose
             (\<not> no_hashes) s0 of
        (Inl e, s1) \<Rightarrow> (Inl e, s1)
      | (Inr dev_results, s1) \<Rightarrow>
     (case add_results no_hashes ''develop'' dev_results lockfile2 of
        Inl e \<Rightarrow> (Inl e, s1)
      | Inr lockfile3 \<Rightarrow>
     (case run_resolve_deps ctx (convert_deps_to_pip ctx (project_packages ctx)) False
             (\<not> no_hashes) (click_echo Stderr (locking_message ctx ''[packages]'') s1) of
        (Inl e, s2) \<Rightarrow> (Inl e, s2)
      | (Inr results, s2) \<Rightarrow>
     (case add_results no_hashes ''default'' results lockfile3 of
        Inl e \<Rightarrow> (Inl e, s2)
      | Inr lockfile4 \<Rightarrow>
     (case delegator_run ctx
             (dq @ which ctx ''python'' @ dq @ '' '' @ shellquote ctx (pep508checker_file ctx)) s2 of
        (c, s3) \<Rightarrow>
     (case json_loads ctx (out c) of
        Inl e \<Rightarrow> (Inl e, s3)
      | Inr markers \<Rightarrow>
     (case set_markers lockfile4 markers of
        Inl e \<Rightarrow> (Inl e, s3)
      | Inr lockfile5 \<Rightarrow>
          (Inr (),
           click_echo Stderr
             (crayons ctx ''yellow'' False ''Updated'' @ '' Pipfile.lock''
                @ crayons ctx ''yellow'' False ''!'')
             (write_lockfile ctx lockfile5 s3)))))))))))"

text \<open>
  The document that \<^verbatim>\<open>do_lock\<close> has built when it reaches line 551 (the value of the
  variable \<^verbatim>\<open>lockfile\<close>), as a function of the two results of \<^verbatim>\<open>resolve_deps\<close> and of
  the markers: the steps of \<open>do_lock\<close> on the document, in their order.
\<close>

definition lock_document ::
  "'w project \<Rightarrow> bool \<Rightarrow> resolved list \<Rightarrow> resolved list \<Rightarrow> json \<Rightarrow> error + json" where
  "lock_document ctx no_hashes dev_results results markers =
     (case cleanup_section (project_lockfile ctx) ''default'' of
        Inl e \<Rightarrow> Inl e
      | Inr lockfile1 \<Rightarrow>
     (case cleanup_section lockfile1 ''develop'' of
        Inl e \<Rightarrow> Inl e
      | Inr lockfile2 \<Rightarrow>
     (case add_results no_hashes ''develop'' dev_results lockfile2 of
        Inl e \<Rightarrow> Inl e
      | Inr lockfile3 \<Rightarrow>
     (case add_results no_hashes ''default'' results lockfile3 of
        Inl e \<Rightarrow> Inl e
      | Inr lockfile4 \<Rightarrow> set_markers lockfile4 markers))))"

section \<open>Initialising the project\<close>

text \<open>
  \<^verbatim>\<open>do_init\<close>, lines 624-671. The functions \<^verbatim>\<open>ensure_pipfile\<close>, \<^verbatim>\<open>do_where\<close>,
  \<^verbatim>\<open>do_create_virtualenv\<close>, \<^verbatim>\<open>cleanup_virtualenv\<close> and \<^verbatim>\<open>do_activate_virtualenv\<close> act on
  the Pipfile, the virtualenv and the terminal; here each is an arbitrary effect on the
  world and the files that may end in an exception and echoes some lines.
  \<^verbatim>\<open>project.virtualenv_exists\<close> is a test on the world.
\<close>

type_synonym 'w effect =
  "'w \<Rightarrow> (string \<rightharpoonup> string) \<Rightarrow> error option \<times> 'w \<times> (string \<rightharpoonup> string) \<times> (stream \<times> string) list"

record 'w steps =
  ensure_pipfile :: "'w effect"
  do_where :: "bool \<Rightarrow> bool \<Rightarrow> 'w effect"
  virtualenv_exists :: "'w \<Rightarrow> bool"
  do_create_virtualenv :: "'w effect"
  cleanup_virtualenv :: "bool \<Rightarrow> 'w effect"
  do_activate_virtualenv :: "'w effect"

definition run_effect :: "'w effect \<Rightarrow> 'w state \<Rightarrow> error option \<times> 'w state" where
  "run_effect f s =
     (case f (world s) (files s) of
        (e, w, fs, lines) \<Rightarrow> (e, s\<lparr>world := w, files := fs, echoed := echoed s @ lines\<rparr>))"

text \<open>Lines 627-638.\<close>

definition do_init_prepare ::
  "'w steps \<Rightarrow> bool \<Rightarrow> 'w state \<Rightarrow> (error + unit) \<times> 'w state" where
  "do_init_prepare st requirements s =
     (case run_effect (ensure_pipfile st) s of
        (Some e, s1) \<Rightarrow> (Inl e, s1)
      | (None, s1) \<Rightarrow>
     (case (if \<not> requirements then run_effect (do_where st False False) s1 else (None, s1)) of
        (Some e, s2) \<Rightarrow> (Inl e, s2)
      | (None, s2) \<Rightarrow>
          (if \<not> virtualenv_exists st (world s2)
           then (case run_effect (do_create_virtualenv st) s2 of
                   (Some KeyboardInterrupt, s3) \<Rightarrow>
                     (case run_effect (cleanup_virtualenv st False) s3 of
                        (Some e, s4) \<Rightarrow> (Inl e, s4)
                      | (None, s4) \<Rightarrow> (Inl (SystemExit 1), s4))
                 | (Some e, s3) \<Rightarrow> (Inl e, s3)
                 | (None, s3) \<Rightarrow> (Inr (), s3))
           else (Inr (), s2))))"

text \<open>
  Lines 641-659. \<open>recorded_hash\<close> is
  \<^verbatim>\<open>lockfile['_meta'].get('hash', {}).get('sha256')\<close>.
\<close>

definition recorded_hash :: "json \<Rightarrow> error + json" where
  "recorded_hash lockfile =
     (case py_getitem lockfile ''_meta'' of
        Inl e \<Rightarrow> Inl e
      | Inr meta \<Rightarrow>
          (case py_get meta ''hash'' (JDict []) of
             Inl e \<Rightarrow> Inl e
           | Inr h \<Rightarrow> py_get h ''sha256'' JNull))"

definition lockfile_exists :: "'w project \<Rightarrow> 'w state \<Rightarrow> bool" where
  "lockfile_exists ctx s = (files s (lockfile_location ctx) \<noteq> None)"

definition update_stale_lock ::
  "'w project \<Rightarrow> bool \<Rightarrow> bool \<Rightarrow> bool \<Rightarrow> 'w state \<Rightarrow> (error + unit) \<times> 'w state" where
  "update_stale_lock ctx no_hashes ignore_pipfile skip_lock s =
     (if (lockfile_exists ctx s \<and> \<not> ignore_pipfile) \<and> \<not> skip_lock
      then (case files s (lockfile_location ctx) of
              None \<Rightarrow> (Inl (IOError (lockfile_location ctx)), s)
            | Some text \<Rightarrow>
                (case json_loads ctx text of
                   Inl e \<Rightarrow> (Inl e, s)
                 | Inr lockfile \<Rightarrow>
                     (case recorded_hash lockfile of
                        Inl e \<Rightarrow> (Inl e, s)
                      | Inr h \<Rightarrow>
                          (if \<not> (h = JStr (pipfile_hash ctx))
                           then do_lock ctx no_hashes False
                                  (click_echo Stderr
                                     (crayons ctx ''red'' False
                                        ''Pipfile.lock out of date, updating...'') s)
                           else (Inr (), s)))))
      else (Inr (), s))"

definition create_missing_lock ::
  "'w project \<Rightarrow> bool \<Rightarrow> bool \<Rightarrow> 'w state \<Rightarrow> (error + unit) \<times> 'w state" where
  "create_missing_lock ctx no_hashes skip_lock s =
     (if \<not> lockfile_exists ctx s \<and> \<not> skip_lock
      then do_lock ctx no_hashes False
             (click_echo Stderr
                (crayons ctx ''yellow'' False ''Pipfile.lock not found, creating...'') s)
      else (Inr (), s))"

definition do_init_lock ::
  "'w project \<Rightarrow> bool \<Rightarrow> bool \<Rightarrow> bool \<Rightarrow> 'w state \<Rightarrow> (error + unit) \<times> 'w state" where
  "do_init_lock ctx no_hashes ignore_pipfile skip_lock s =
     (case update_stale_lock ctx no_hashes ignore_pipfile skip_lock s of
        (Inl e, s1) \<Rightarrow> (Inl e, s1)
      | (Inr _, s1) \<Rightarrow> create_missing_lock ctx no_hashes skip_lock s1)"

definition do_init ::
  "'w project \<Rightarrow> 'w steps \<Rightarrow> bool \<Rightarrow> bool \<Rightarrow> bool \<Rightarrow> bool \<Rightarrow> bool \<Rightarrow> bool \<Rightarrow> bool \<Rightarrow> bool
     \<Rightarrow> 'w state \<Rightarrow> (error + unit) \<times> 'w state" where
  "do_init ctx st dev requirements allow_global ignore_hashes no_hashes ignore_pipfile skip_lock
       verbose s =
     (case do_init_prepare st requirements s of
        (Inl e, s1) \<Rightarrow> (Inl e, s1)
      | (Inr _, s1) \<Rightarrow>
     (case do_init_lock ctx no_hashes ignore_pipfile skip_lock s1 of
        (Inl e, s2) \<Rightarrow> (Inl e, s2)
      | (Inr _, s2) \<Rightarrow>
     (let ignore_hashes1 = (ignore_hashes \<or> no_hashes);
          ignore_hashes2 = False
      in case do_install_dependencies ctx dev False False requirements allow_global
                ignore_hashes2 skip_lock verbose s2 of
           (Inl e, s3) \<Rightarrow> (Inl e, s3)
         | (Inr _, s3) \<Rightarrow>
             (if \<not> allow_global
              then (case run_effect (do_activate_virtualenv st) s3 of
                      (Some e, s4) \<Rightarrow> (Inl e, s4)
                    | (None, s4) \<Rightarrow> (Inr (), s4))
              else (Inr (), s3)))))"

section \<open>An example project\<close>

text \<open>
  A project with two package indexes. The world is the list of the packages installed
  in the virtualenv. The installer of the example reads the requirement file: it fails
  on the index \<^verbatim>\<open>mirror-a\<close> and for the package \<^verbatim>\<open>p2\<close>, and installs anything else;
  a command without a requirement file prints an empty JSON document.
\<close>

definition example_pip ::
  "string \<Rightarrow> (string \<rightharpoonup> string) \<Rightarrow> string list \<Rightarrow> cmd_result \<times> string list" where
  "example_pip cmd fs w =
     (case fs ''/tmp/pipenv-0-requirement.txt'' of
        None \<Rightarrow> (\<lparr>return_code = 0, out = ''{}'', err = []\<rparr>, w)
      | Some content \<Rightarrow>
          (if py_contains ''mirror-a'' cmd \<or> content = ''p2''
           then (\<lparr>return_code = 1, out = ''Collecting '' @ content,
                  err = ''No matching distribution''\<rparr>, w)
           else (\<lparr>return_code = 0, out = ''Installed '' @ content, err = []\<rparr>, w @ [content])))"

definition example_lock :: "string \<Rightarrow> json" where
  "example_lock h =
     JDict [(''_meta'', JDict [(''hash'', JDict [(''sha256'', JStr h)])]),
            (''default'', JDict [(''stale'', JDict [(''version'', JStr ''==0.1'')]),
                                 (''plain'', JStr ''*'')]),
            (''develop'', JDict [])]"

definition example_json_loads :: "string \<Rightarrow> error + json" where
  "example_json_loads text =
     (if text = ''{}'' then Inr (JDict [])
      else if text = ''old lock'' then Inr (example_lock ''h0'')
      else if text = ''fresh lock'' then Inr (example_lock ''h1'')
      else Inl ValueError)"

definition example_keys :: "json \<Rightarrow> string list" where
  "example_keys j = (case j of JDict kvs \<Rightarrow> map fst kvs | _ \<Rightarrow> [])"

definition example_project :: "string list project" where
  "example_project =
     \<lparr>host_os = Posix,
      virtualenv_location = ''/venv'',
      global_pip = Some ''/usr/bin/pip'',
      project_sources = [\<lparr>source_name = ''a'', url = ''https://mirror-a/simple'', verify_ssl = True\<rparr>,
                         \<lparr>source_name = ''b'', url = ''https://mirror-b/simple'', verify_ssl = True\<rparr>],
      download_location = ''/downloads'',
      lockfile_location = ''Pipfile.lock'',
      pipfile_hash = ''h1'',
      project_lockfile = example_lock ''h1'',
      project_packages = JDict [(''requests'', JStr ''*'')],
      project_dev_packages = JDict [],
      delegator = example_pip,
      mkstemp = (\<lambda>w. ((''/tmp/'', ''0''), w)),
      crayons = (\<lambda>colour bold text. text),
      json_loads = example_json_loads,
      convert_deps_to_pip = example_keys,
      split_vcs = (\<lambda>j. j),
      resolve_deps = (\<lambda>deps srcs verbose hashes w.
                        (Inr (map (\<lambda>d. \<lparr>dep_name = d, dep_version = ''2.0'', dep_hashes = None\<rparr>) deps),
                         w)),
      shellquote = (\<lambda>t. t),
      pep508checker_file = ''/pipenv/pep508checker.py''\<rparr>"


definition example_state :: "string list state" where
  "example_state =
     \<lparr>world = [], files = Map.empty, runs = [], echoed = [], file_log = [], calls = [],
      resolutions = []\<rparr>"

definition example_steps :: "string list steps" where
  "example_steps =
     \<lparr>ensure_pipfile = (\<lambda>w fs. (None, w, fs, [])),
      do_where = (\<lambda>virtualenv bare w fs. (None, w, fs, [])),
      virtualenv_exists = (\<lambda>w. True),
      do_create_virtualenv = (\<lambda>w fs. (None, w, fs, [])),
      cleanup_virtualenv = (\<lambda>bare w fs. (None, w, fs, [])),
      do_activate_virtualenv = (\<lambda>w fs. (None, w, fs, []))\<rparr>"

text \<open>A state in which an older lock file is on the disk.\<close>

definition locked_state :: "string list state" where
  "locked_state = example_state\<lparr>files := [''Pipfile.lock'' \<mapsto> ''old lock'']\<rparr>"

section \<open>Properties of the string functions\<close>

lemma py_split_from_nonempty: "py_split_from sep cur s \<noteq> []"
  by (induction sep cur s rule: py_split_from.induct) auto

lemma py_split_from_char:
  "py_split_from [c] cur s =
     (if c \<in> set s
      then (cur @ takeWhile (\<lambda>x. x \<noteq> c) s) # py_split_from [c] [] (tl (dropWhile (\<lambda>x. x \<noteq> c) s))
      else [cur @ s])"
  by (induction s arbitrary: cur) auto

lemma py_contains_char: "py_contains [c] s = (c \<in> set s)"
  by (induction s) auto

lemma py_split_char_hd: "hd (py_split_from [c] cur s) = cur @ takeWhile (\<lambda>x. x \<noteq> c) s"
proof (cases "c \<in> set s")
  case True
  then show ?thesis by (subst py_split_from_char) simp
next
  case False
  then have tw: "takeWhile (\<lambda>x. x \<noteq> c) s = s" by (auto simp: takeWhile_eq_all_conv)
  show ?thesis by (subst py_split_from_char) (simp add: False tw)
qed

lemma drop_implicit_post_eq:
  "drop_implicit_post version =
     (let front = takeWhile (\<lambda>c. c \<noteq> CHR ''-'') version;
          rest = drop (length front + 1) version
      in if CHR ''-'' \<in> set version \<and> py_isdigit (takeWhile (\<lambda>c. c \<noteq> CHR ''-'') rest)
         then front else version)"
proof (cases "CHR ''-'' \<in> set version")
  case False
  then show ?thesis by (simp add: drop_implicit_post_def py_contains_char)
next
  case True
  have rest: "tl (dropWhile (\<lambda>c. c \<noteq> CHR ''-'') version)
                = drop (length (takeWhile (\<lambda>c. c \<noteq> CHR ''-'') version) + 1) version"
    by (simp add: dropWhile_eq_drop drop_Suc tl_drop)
  have split: "py_split version ''-'' =
      takeWhile (\<lambda>c. c \<noteq> CHR ''-'') version
        # py_split_from ''-'' [] (tl (dropWhile (\<lambda>c. c \<noteq> CHR ''-'') version))"
    using True by (simp add: py_split_def py_split_from_char[of _ "[]" version])
  have one: "py_split version ''-'' ! 1
      = takeWhile (\<lambda>c. c \<noteq> CHR ''-'') (tl (dropWhile (\<lambda>c. c \<noteq> CHR ''-'') version))"
    using py_split_char_hd[of "CHR ''-''" "[]"] py_split_from_nonempty[of "''-''" "[]"]
    by (simp add: split hd_conv_nth)
  have zero: "py_split version ''-'' ! 0 = takeWhile (\<lambda>c. c \<noteq> CHR ''-'') version"
    by (simp add: split)
  show ?thesis
    unfolding drop_implicit_post_def py_contains_char one zero rest Let_def by simp
qed

lemma section_name_total: "\<exists>n. section_name pep (py_split_from sep cur s) = Inr n"
proof -
  obtain l ls where l: "py_split_from sep cur s = l # ls"
    using py_split_from_nonempty[of sep cur s] by (cases "py_split_from sep cur s") auto
  obtain a as where a: "py_split l ''('' = a # as"
    using py_split_from_nonempty[of "''(''" "[]" l] by (cases "py_split l ''(''") (auto simp: py_split_def)
  obtain b bs where b: "py_split a '';'' = b # bs"
    using py_split_from_nonempty[of "'';''" "[]" a] by (cases "py_split a '';''") (auto simp: py_split_def)
  show ?thesis by (simp add: section_name_def py_first_def l a b)
qed

lemma saved_fname_total: "\<exists>f. saved_fname os fl = Inr f"
  using py_split_from_nonempty[of "os_sep os" "[]" fl]
  by (simp add: saved_fname_def py_last_def py_split_def)

lemma scan_lines_total:
  "\<exists>r. scan_lines os name lines = Inr r \<and>
        (r = None \<longleftrightarrow> \<not> list_ex (\<lambda>line. match_line line \<noteq> None) lines)"
proof (induction lines)
  case Nil
  show ?case by simp
next
  case (Cons line lines)
  show ?case
  proof (cases "match_line line")
    case None
    with Cons show ?thesis by simp
  next
    case (Some fl)
    obtain f where "saved_fname os fl = Inr f" using saved_fname_total by blast
    with Some show ?thesis by simp
  qed
qed

lemma parse_sections_total:
  "\<exists>pairs. parse_sections pep os sections names = Inr (names @ pairs) \<and>
            length pairs = length (filter has_confirmation sections)"
proof (induction sections arbitrary: names)
  case Nil
  show ?case by simp
next
  case (Cons sec sections)
  obtain n where n: "section_name pep (py_split sec ''\<newline>'') = Inr n"
    using section_name_total[of pep "''\<newline>''" "[]" sec] by (auto simp: py_split_def)
  obtain r where r: "scan_lines os n (py_split sec ''\<newline>'') = Inr r"
    and rn: "r = None \<longleftrightarrow> \<not> has_confirmation sec"
    using scan_lines_total[of os n "py_split sec ''\<newline>''"] by (auto simp: has_confirmation_def)
  show ?case
  proof (cases r)
    case None
    with Cons[of names] n r rn show ?thesis by (simp add: Let_def)
  next
    case (Some p)
    obtain pairs where "parse_sections pep os sections (names @ [p]) = Inr ((names @ [p]) @ pairs)"
      and "length pairs = length (filter has_confirmation sections)"
      using Cons[of "names @ [p]"] by blast
    with Some n r rn show ?thesis by (simp add: Let_def)
  qed
qed

lemma parse_install_output_example:
  "parse_install_output pep os ''alpha (from beta)\<newline>Saved ./alpha-1.2.3-py3-none-any.whl\<newline>''
     = Inr [(''alpha-1.2.3-py3-none-any.whl'', pep ''alpha'')]"
  by (cases os)
     (simp_all add: parse_install_output_def py_split_def section_name_def py_first_def py_last_def
        py_strip_def is_space_def match_line_def parse_file_def py_lower_char_def saved_fname_def
        os_sep_def startswith_def hex_val_def)

text \<open>
  Claim C9. On the section text of the specification, \<^verbatim>\<open>parse_install_output\<close> returns
  exactly one pair: the file name \<^verbatim>\<open>alpha-1.2.3-py3-none-any.whl\<close> (the leading \<^verbatim>\<open>./\<close>
  removed) with the declared name \<^verbatim>\<open>alpha\<close> (the parenthesis trimmed, the name passed
  through \<^verbatim>\<open>pep423_name\<close>, which leaves \<^verbatim>\<open>alpha\<close> as it is). The source builds each
  pair as (file name, declared name). On every output the function returns a list,
  never an error, with one pair for each section that has a save confirmation and none
  for the others.
\<close>

theorem parse_install_output_pairs:
  "(pep423_name ''alpha'' = ''alpha'' \<longrightarrow>
      parse_install_output pep423_name os
        ''alpha (from beta)\<newline>Saved ./alpha-1.2.3-py3-none-any.whl\<newline>''
      = Inr [(''alpha-1.2.3-py3-none-any.whl'', ''alpha'')])
   \<and> (\<exists>pairs. parse_install_output pep423_name os output = Inr pairs
          \<and> length pairs = length (filter has_confirmation (py_split output ''Collecting '')))"
  using parse_sections_total[of pep423_name os "py_split output ''Collecting ''" "[]"]
  by (simp add: parse_install_output_example) (simp add: parse_install_output_def)

theorem parse_install_output_pairs_witness:
  "parse_install_output (map py_lower_char) Posix
      ''alpha (from beta)\<newline>Saved ./alpha-1.2.3-py3-none-any.whl\<newline>''
     = Inr [(''alpha-1.2.3-py3-none-any.whl'', ''alpha'')]
   \<and> parse_install_output (map py_lower_char) Posix
      ''Collecting beta (from alpha)\<newline>  Downloading beta-2.0.tar.gz'' = Inr []"
proof -
  have lower: "map py_lower_char ''alpha'' = ''alpha''"
    by (simp add: py_lower_char_def)
  have none: "filter has_confirmation
      (py_split ''Collecting beta (from alpha)\<newline>  Downloading beta-2.0.tar.gz'' ''Collecting '') = []"
    by (simp add: has_confirmation_def py_split_def match_line_def parse_file_def py_strip_def
          is_space_def py_lower_char_def)
  show ?thesis
    using parse_install_output_pairs[of "map py_lower_char" Posix
        "''Collecting beta (from alpha)\<newline>  Downloading beta-2.0.tar.gz''"] lower none
    by auto
qed

text \<open>
  Claim C8, as stated, fails at its second example: an explicit \<^verbatim>\<open>.post1\<close> segment is
  part of the version that \<^verbatim>\<open>parse_download_fname\<close> returns.
\<close>

theorem parse_download_fname_post1_counterexample:
  "parse_download_fname Posix ''alpha-1.2.3.post1.tar.gz'' ''alpha'' \<noteq> ''1.2.3''"
  by (simp add: parse_download_fname_def fname_stem_def drop_implicit_post_def splitext_def
        py_rfind_def py_split_def endswith_def py_isdigit_def is_digit_def Let_def)

lemma parse_download_fname_examples:
  "parse_download_fname os ''alpha-1.2.3-py3-none-any.whl'' ''alpha'' = ''1.2.3''"
  "parse_download_fname os ''alpha-1.2.3.post1.tar.gz'' ''alpha'' = ''1.2.3.post1''"
  "parse_download_fname os ''alpha-1.2.3-1.tar.gz'' ''alpha'' = ''1.2.3''"
  by (cases os; simp add: parse_download_fname_def fname_stem_def drop_implicit_post_def splitext_def
        py_rfind_def py_split_def endswith_def py_isdigit_def is_digit_def Let_def)+

text \<open>
  Claim C8, amended. \<^verbatim>\<open>parse_download_fname("alpha-1.2.3-py3-none-any.whl", "alpha")\<close> is
  \<^verbatim>\<open>1.2.3\<close>, and \<^verbatim>\<open>parse_download_fname("alpha-1.2.3.post1.tar.gz", "alpha")\<close> is
  \<^verbatim>\<open>1.2.3.post1\<close>. In general, with \<open>version\<close> what is left after the suffixes and the
  leading name and dash are removed: when \<open>version\<close> has a dash and the segment between
  its first dash and the next one (or the end) is purely numeric, the result is the text
  before the first dash; otherwise the result is \<open>version\<close> unchanged.
\<close>

theorem parse_download_fname_version:
  "parse_download_fname os ''alpha-1.2.3-py3-none-any.whl'' ''alpha'' = ''1.2.3''
   \<and> parse_download_fname os ''alpha-1.2.3.post1.tar.gz'' ''alpha'' = ''1.2.3.post1''
   \<and> parse_download_fname os fname name =
       (let version = drop (length name + 1) (fname_stem os fname);
            front = takeWhile (\<lambda>c. c \<noteq> CHR ''-'') version;
            rest = drop (length front + 1) version
        in if CHR ''-'' \<in> set version \<and> py_isdigit (takeWhile (\<lambda>c. c \<noteq> CHR ''-'') rest)
           then front else version)"
  using drop_implicit_post_eq[of "drop (length name + 1) (fname_stem os fname)"]
  by (simp add: parse_download_fname_examples) (simp add: parse_download_fname_def Let_def)

theorem parse_download_fname_version_witness:
  "parse_download_fname Posix ''alpha-1.2.3-1.tar.gz'' ''alpha'' = ''1.2.3''
   \<and> parse_download_fname Posix ''alpha-1.2.3-rc1.tar.gz'' ''alpha'' = ''1.2.3-rc1''"
proof -
  have stem1: "fname_stem Posix ''alpha-1.2.3-1.tar.gz'' = ''alpha-1.2.3-1''"
    by (simp add: fname_stem_def splitext_def py_rfind_def endswith_def Let_def)
  have stem2: "fname_stem Posix ''alpha-1.2.3-rc1.tar.gz'' = ''alpha-1.2.3-rc1''"
    by (simp add: fname_stem_def splitext_def py_rfind_def endswith_def Let_def)
  show ?thesis
    using parse_download_fname_version[of Posix "''alpha-1.2.3-1.tar.gz''" "''alpha''"]
          parse_download_fname_version[of Posix "''alpha-1.2.3-rc1.tar.gz''" "''alpha''"]
    by (simp add: stem1 stem2 py_isdigit_def is_digit_def Let_def)
qed

section \<open>Properties of the installer calls\<close>

lemma files_click_echo [simp]: "files (click_echo st text s) = files s"
  and runs_click_echo [simp]: "runs (click_echo st text s) = runs s"
  and world_click_echo [simp]: "world (click_echo st text s) = world s"
  and calls_click_echo [simp]: "calls (click_echo st text s) = calls s"
  and file_log_click_echo [simp]: "file_log (click_echo st text s) = file_log s"
  and resolutions_click_echo [simp]: "resolutions (click_echo st text s) = resolutions s"
  and echoed_click_echo: "echoed (click_echo st text s) = echoed s @ [(st, text)]"
  by (simp_all add: click_echo_def)

lemma delegator_run_fields:
  assumes "delegator_run ctx cmd s = (res, s')"
  shows "files s' = files s" and "runs s' = runs s @ [(cmd, res)]" and "echoed s' = echoed s"
    and "calls s' = calls s" and "file_log s' = file_log s" and "resolutions s' = resolutions s"
  using assms by (auto simp: delegator_run_def split: prod.splits)



















section \<open>Properties of locking\<close>

lemma run_resolve_deps_fields:
  assumes "run_resolve_deps ctx deps v h s = (r, s')"
  shows "files s' = files s" and "runs s' = runs s" and "echoed s' = echoed s"
    and "calls s' = calls s" and "file_log s' = file_log s"
    and "resolutions s' = resolutions s @ (case r of Inl e \<Rightarrow> [] | Inr results \<Rightarrow> [results])"
  using assms by (auto simp: run_resolve_deps_def split: prod.splits sum.splits)

lemma write_lockfile_fields:
  "files (write_lockfile ctx doc s) = (files s)(lockfile_location ctx \<mapsto> json_dumps doc @ ''\<newline>'')"
  "file_log (write_lockfile ctx doc s) = file_log s @
      [(lockfile_location ctx, []), (lockfile_location ctx, json_dumps doc),
       (lockfile_location ctx, json_dumps doc @ ''\<newline>'')]"
  "runs (write_lockfile ctx doc s) = runs s" "calls (write_lockfile ctx doc s) = calls s"
  "resolutions (write_lockfile ctx doc s) = resolutions s" "world (write_lockfile ctx doc s) = world s"
  "echoed (write_lockfile ctx doc s) = echoed s"
  by (simp_all add: write_lockfile_def file_write_def open_w_def Let_def)

lemmas click_echo_fields = files_click_echo runs_click_echo world_click_echo calls_click_echo
  file_log_click_echo resolutions_click_echo

text \<open>What a completed \<open>do_lock\<close> has done.\<close>

lemma do_lock_success:
  assumes "do_lock ctx no_hashes verbose s = (Inr u, s')"
  shows "\<exists>dev_results results c markers doc.
      resolutions s' = resolutions s @ [dev_results, results]
    \<and> runs s' = runs s @ [(dq @ which ctx ''python'' @ dq @ '' '' @ shellquote ctx (pep508checker_file ctx), c)]
    \<and> json_loads ctx (out c) = Inr markers
    \<and> lock_document ctx no_hashes dev_results results markers = Inr doc
    \<and> files s' = (files s)(lockfile_location ctx \<mapsto> json_dumps doc @ ''\<newline>'')
    \<and> file_log s' = file_log s @
         [(lockfile_location ctx, []), (lockfile_location ctx, json_dumps doc),
          (lockfile_location ctx, json_dumps doc @ ''\<newline>'')]
    \<and> calls s' = calls s @ [Call_do_lock no_hashes verbose]"
proof -
  let ?s0 = "click_echo Stderr (locking_message ctx ''[dev-packages]'')
                 (s\<lparr>calls := calls s @ [Call_do_lock no_hashes verbose]\<rparr>)"
  from assms obtain l1 where l1: "cleanup_section (project_lockfile ctx) ''default'' = Inr l1"
    by (auto simp: do_lock_def Let_def split: sum.splits)
  from assms l1 obtain l2 where l2: "cleanup_section l1 ''develop'' = Inr l2"
    by (auto simp: do_lock_def Let_def split: sum.splits)
  obtain r1 s1 where rr1: "run_resolve_deps ctx (convert_deps_to_pip ctx (project_dev_packages ctx))
      verbose (\<not> no_hashes) ?s0 = (r1, s1)"
    by (metis prod.exhaust)
  from assms l1 l2 rr1 obtain devr where devr: "r1 = Inr devr"
    by (auto simp: do_lock_def Let_def split: sum.splits)
  from assms l1 l2 rr1 devr obtain l3 where l3: "add_results no_hashes ''develop'' devr l2 = Inr l3"
    by (auto simp: do_lock_def Let_def split: sum.splits)
  obtain r2 s2 where rr2: "run_resolve_deps ctx (convert_deps_to_pip ctx (project_packages ctx))
      False (\<not> no_hashes) (click_echo Stderr (locking_message ctx ''[packages]'') s1) = (r2, s2)"
    by (metis prod.exhaust)
  from assms l1 l2 rr1 devr l3 rr2 obtain res where res: "r2 = Inr res"
    by (auto simp: do_lock_def Let_def split: sum.splits)
  from assms l1 l2 rr1 devr l3 rr2 res obtain l4 where l4: "add_results no_hashes ''default'' res l3 = Inr l4"
    by (auto simp: do_lock_def Let_def split: sum.splits)
  let ?cmd = "dq @ which ctx ''python'' @ dq @ '' '' @ shellquote ctx (pep508checker_file ctx)"
  obtain c s3 where run: "delegator_run ctx ?cmd s2 = (c, s3)"
    by (metis prod.exhaust)
  from assms l1 l2 rr1 devr l3 rr2 res l4 run obtain markers where m: "json_loads ctx (out c) = Inr markers"
    by (auto simp: do_lock_def Let_def split: sum.splits)
  from assms l1 l2 rr1 devr l3 rr2 res l4 run m obtain l5 where l5: "set_markers l4 markers = Inr l5"
    by (auto simp: do_lock_def Let_def split: sum.splits)
  have s': "s' = click_echo Stderr
             (crayons ctx ''yellow'' False ''Updated'' @ '' Pipfile.lock''
                @ crayons ctx ''yellow'' False ''!'')
             (write_lockfile ctx l5 s3)"
    using assms l1 l2 rr1 devr l3 rr2 res l4 run m l5 by (simp add: do_lock_def Let_def)
  have doc: "lock_document ctx no_hashes devr res markers = Inr l5"
    by (simp add: lock_document_def l1 l2 l3 l4 l5)
  note f1 = run_resolve_deps_fields[OF rr1] and f2 = run_resolve_deps_fields[OF rr2]
    and f3 = delegator_run_fields[OF run]
  show ?thesis
    apply (rule exI[of _ devr], rule exI[of _ res], rule exI[of _ c], rule exI[of _ markers],
        rule exI[of _ l5])
    using m doc
    by (simp add: s' click_echo_fields write_lockfile_fields f1 f2 f3 devr res)
qed

text \<open>A \<open>do_lock\<close> that ends in an exception has not touched a file.\<close>

lemma do_lock_failure:
  assumes "do_lock ctx no_hashes verbose s = (Inl e, s')"
  shows "files s' = files s" and "file_log s' = file_log s"
    and "calls s' = calls s @ [Call_do_lock no_hashes verbose]"
proof -
  let ?s0 = "click_echo Stderr (locking_message ctx ''[dev-packages]'')
                 (s\<lparr>calls := calls s @ [Call_do_lock no_hashes verbose]\<rparr>)"
  let ?cmd = "dq @ which ctx ''python'' @ dq @ '' '' @ shellquote ctx (pep508checker_file ctx)"
  obtain r1 s1 where rr1: "run_resolve_deps ctx (convert_deps_to_pip ctx (project_dev_packages ctx))
      verbose (\<not> no_hashes) ?s0 = (r1, s1)"
    by (metis prod.exhaust)
  obtain r2 s2 where rr2: "run_resolve_deps ctx (convert_deps_to_pip ctx (project_packages ctx))
      False (\<not> no_hashes) (click_echo Stderr (locking_message ctx ''[packages]'') s1) = (r2, s2)"
    by (metis prod.exhaust)
  obtain c s3 where run: "delegator_run ctx ?cmd s2 = (c, s3)"
    by (metis prod.exhaust)
  note f1 = run_resolve_deps_fields[OF rr1] and f2 = run_resolve_deps_fields[OF rr2]
    and f3 = delegator_run_fields[OF run]
  have "s' = ?s0 \<or> s' = s1 \<or> s' = s2 \<or> s' = s3"
    using assms rr1 rr2 run by (auto simp: do_lock_def Let_def split: sum.splits)
  then show "files s' = files s" and "file_log s' = file_log s"
    and "calls s' = calls s @ [Call_do_lock no_hashes verbose]"
    using f1 f2 f3 by (auto simp: click_echo_fields)
qed






lemma py_setitem_is_dict: "py_setitem d k v = Inr d' \<Longrightarrow> is_dict d'"
  by (auto simp: py_setitem_def is_dict_def split: json.splits)

lemma lock_document_is_dict: "lock_document ctx nh devr res markers = Inr doc \<Longrightarrow> is_dict doc"
  by (auto simp: lock_document_def set_markers_def split: sum.splits dest: py_setitem_is_dict)


lemmas example_defs = example_project_def example_state_def locked_state_def example_lock_def
  example_keys_def example_pip_def example_json_loads_def

lemmas do_lock_defs = do_lock_def lock_document_def cleanup_section_def set_markers_def
  py_getitem_def py_setitem_def is_dict_def lock_entry_def run_resolve_deps_def
  delegator_run_def write_lockfile_def file_write_def open_w_def click_echo_def
  which_def os_sep_def Let_def

lemma example_lock_run:
  "fst (do_lock example_project True v example_state) = Inr ()"
  "fst (do_lock example_project True v locked_state) = Inr ()"
  "resolutions (snd (do_lock example_project True v example_state))
     = [[], [\<lparr>dep_name = ''requests'', dep_version = ''2.0'', dep_hashes = None\<rparr>]]"
  "resolutions (snd (do_lock example_project True v locked_state))
     = [[], [\<lparr>dep_name = ''requests'', dep_version = ''2.0'', dep_hashes = None\<rparr>]]"
  "out (snd (last (runs (snd (do_lock example_project True v example_state))))) = ''{}''"
  "out (snd (last (runs (snd (do_lock example_project True v locked_state))))) = ''{}''"
  by (simp_all add: example_defs do_lock_defs)

lemma example_lock_file:
  "files (snd (do_lock example_project True v locked_state)) ''Pipfile.lock''
     = Some (json_dumps
              (JDict [(''_meta'', JDict [(''hash'', JDict [(''sha256'', JStr ''h1'')]),
                                         (''host-environment-markers'', JDict [])]),
                      (''default'', JDict [(''stale'', JDict [(''version'', JStr ''==0.1'')]),
                                           (''requests'', JDict [(''version'', JStr ''==2.0'')])]),
                      (''develop'', JDict [])]) @ ''\<newline>'')"
  "file_log (snd (do_lock example_project True v locked_state)) ! 0 = (''Pipfile.lock'', [])"
  by (simp_all add: example_defs do_lock_defs)



text \<open>
  Claim C5, as stated, fails: \<^verbatim>\<open>do_lock\<close> opens the destination itself for writing. With
  an older lock on the disk, the first file operation of \<^verbatim>\<open>do_lock\<close> leaves the lock file
  empty, which is neither the older lock nor the new one.
\<close>

theorem lock_write_counterexample:
  "files locked_state (lockfile_location example_project) = Some ''old lock''
   \<and> file_log (snd (do_lock example_project True False locked_state)) ! 0
       = (lockfile_location example_project, [])
   \<and> files (snd (do_lock example_project True False locked_state))
        (lockfile_location example_project) \<noteq> Some []"
  using example_lock_file[of False]
  by (simp add: example_project_def locked_state_def example_state_def)

text \<open>
  Claim C5, amended. \<^verbatim>\<open>do_lock\<close> writes the lock in place: a completed run has opened the
  destination for writing (which empties it), written the serialized document and then
  a newline, on the destination path and no other, and the destination then holds the
  document followed by the newline. A run that ends in an exception has not touched any
  file.
\<close>

theorem lock_written_in_place:
  "(do_lock ctx no_hashes verbose s = (Inr (), s')
      \<longrightarrow> (\<exists>items.
             file_log s' = file_log s @
               [(lockfile_location ctx, []),
                (lockfile_location ctx, json_dumps (JDict items)),
                (lockfile_location ctx, json_dumps (JDict items) @ ''\<newline>'')]
           \<and> files s' = (files s)(lockfile_location ctx \<mapsto> json_dumps (JDict items) @ ''\<newline>'')))
   \<and> (do_lock ctx no_hashes verbose s = (Inl e, s')
      \<longrightarrow> files s' = files s \<and> file_log s' = file_log s)"
proof (intro conjI impI)
  assume "do_lock ctx no_hashes verbose s = (Inr (), s')"
  from do_lock_success[OF this] obtain devr res c m doc where
    doc: "lock_document ctx no_hashes devr res m = Inr doc"
    and f: "files s' = (files s)(lockfile_location ctx \<mapsto> json_dumps doc @ ''\<newline>'')"
    and l: "file_log s' = file_log s @
         [(lockfile_location ctx, []), (lockfile_location ctx, json_dumps doc),
          (lockfile_location ctx, json_dumps doc @ ''\<newline>'')]"
    by blast
  obtain items where "doc = JDict items"
    using lock_document_is_dict[OF doc] by (cases doc) (auto simp: is_dict_def)
  then show "\<exists>items.
             file_log s' = file_log s @
               [(lockfile_location ctx, []),
                (lockfile_location ctx, json_dumps (JDict items)),
                (lockfile_location ctx, json_dumps (JDict items) @ ''\<newline>'')]
           \<and> files s' = (files s)(lockfile_location ctx \<mapsto> json_dumps (JDict items) @ ''\<newline>'')"
    using f l by auto
next
  assume "do_lock ctx no_hashes verbose s = (Inl e, s')"
  from do_lock_failure[OF this]
  show "files s' = files s" and "file_log s' = file_log s" by simp_all
qed

theorem lock_written_in_place_witness:
  "(\<exists>items. file_log (snd (do_lock example_project True False locked_state))
       = [(''Pipfile.lock'', []),
          (''Pipfile.lock'', json_dumps (JDict items)),
          (''Pipfile.lock'', json_dumps (JDict items) @ ''\<newline>'')])
   \<and> files (snd (do_lock (example_project\<lparr>json_loads := (\<lambda>t. Inl ValueError)\<rparr>) True False
                    locked_state)) ''Pipfile.lock'' = Some ''old lock''"
proof -
  define t1 where "t1 = snd (do_lock example_project True False locked_state)"
  have r1: "do_lock example_project True False locked_state = (Inr (), t1)"
    using example_lock_run(2)[of False] by (simp add: t1_def prod_eq_iff)
  define bad where "bad = example_project\<lparr>json_loads := (\<lambda>t. Inl ValueError)\<rparr>"
  define t2 where "t2 = snd (do_lock bad True False locked_state)"
  have "fst (do_lock bad True False locked_state) = Inl ValueError"
    by (simp add: bad_def example_defs do_lock_defs)
  then have r2: "do_lock bad True False locked_state = (Inl ValueError, t2)"
    by (simp add: t2_def prod_eq_iff)
  have a: "\<exists>items. file_log t1 = file_log locked_state @
       [(lockfile_location example_project, []),
        (lockfile_location example_project, json_dumps (JDict items)),
        (lockfile_location example_project, json_dumps (JDict items) @ ''\<newline>'')]"
    using lock_written_in_place[where ctx=example_project and no_hashes=True and verbose=False
        and s=locked_state and s'=t1] r1 by blast
  have b: "files t2 = files locked_state"
    using lock_written_in_place[where ctx=bad and no_hashes=True and verbose=False
        and s=locked_state and s'=t2 and e=ValueError] r2 by blast
  show ?thesis
    using a b unfolding t1_def[symmetric] t2_def[symmetric] bad_def[symmetric]
    by (simp add: example_project_def locked_state_def example_state_def)
qed

section \<open>The sections of the lock document\<close>




lemma keys_update_mono: "fst ` set al \<subseteq> fst ` set (AList.update k v al)"
  by (auto simp: dom_update)









section \<open>Properties of the initialisation\<close>

lemma pip_install_sources_calls:
  "calls (snd (pip_install_sources ctx p r ag nd v srcs ih c s)) = calls s"
proof (induction srcs arbitrary: ih c s)
  case Nil
  show ?case by (cases c) auto
next
  case (Cons src rest)
  show ?case
  proof (cases "install_reqs_of r p")
    case (Inl e)
    then show ?thesis by simp
  next
    case (Inr reqs)
    show ?thesis
    proof (cases "skip_hash_check r reqs ih (files s)")
      case (Inl e)
      with Inr show ?thesis by simp
    next
      case ih': (Inr ih')
      let ?cmd = "pip_command_of ctx ag nd reqs ih' src"
      let ?s1 = "if v then click_echo Stderr (''$ '' @ ?cmd) s else s"
      obtain res s2 where run: "delegator_run ctx ?cmd ?s1 = (res, s2)"
        by (cases "delegator_run ctx ?cmd ?s1") auto
      have c2: "calls s2 = calls s"
        using delegator_run_fields(4)[OF run] by (auto split: if_splits)
      show ?thesis
        using Inr ih' run c2 Cons.IH[of ih' "Some res" s2] by simp
    qed
  qed
qed

lemma pip_install_calls:
  "calls (snd (pip_install ctx p r ag ih nd v s)) = calls s"
  by (auto simp: pip_install_def pip_install_sources_calls open_w_def file_write_def Let_def
           split: prod.splits option.splits)

lemma install_deps_list_calls:
  "calls (snd (install_deps_list ctx ag nd v deps s)) = calls s"
proof (induction deps arbitrary: s)
  case Nil
  show ?case by simp
next
  case (Cons entry deps)
  obtain dep ih where entry: "entry = (dep, ih)" by (cases entry)
  obtain r s1 where run: "pip_install ctx (Some dep) None ag ih nd v s = (r, s1)"
    by (cases "pip_install ctx (Some dep) None ag ih nd v s") auto
  have c1: "calls s1 = calls s"
    using pip_install_calls[of ctx "Some dep" None ag ih nd v s] run by simp
  show ?case
    using run c1 Cons.IH[of s1]
    by (cases r) (auto simp: entry report_failure_def)
qed

lemma load_lockfile_calls:
  "calls (snd (load_lockfile ctx skip_lock only bare s)) = calls s"
  by (auto simp: load_lockfile_def Let_def split: option.splits sum.splits)

lemma do_install_dependencies_calls:
  "calls (snd (do_install_dependencies ctx dev only bare requirements ag ih skip_lock v s))
     = calls s @ [Call_do_install_dependencies dev only bare requirements ag ih skip_lock v]"
proof -
  let ?s0 = "s\<lparr>calls := calls s @ [Call_do_install_dependencies dev only bare requirements ag ih
                                     skip_lock v]\<rparr>"
  obtain r s1 where l: "load_lockfile ctx skip_lock only (if requirements then True else bare) ?s0
      = (r, s1)"
    by (metis prod.exhaust)
  have c1: "calls s1 = calls ?s0"
    using load_lockfile_calls[of ctx skip_lock only "if requirements then True else bare" ?s0] l
    by simp
  show ?thesis
    using l c1
    by (auto simp: do_install_dependencies_def install_deps_list_calls split: sum.splits)
qed

lemma run_effect_calls: "calls (snd (run_effect f s)) = calls s"
  by (auto simp: run_effect_def split: prod.splits)

lemma run_effect_calls': "run_effect f t = (x, t') \<Longrightarrow> calls t' = calls t"
  using run_effect_calls[of f t] by simp

lemma do_init_prepare_calls: "calls (snd (do_init_prepare st requirements s)) = calls s"
proof -
  obtain x1 s1 where r1: "run_effect (ensure_pipfile st) s = (x1, s1)" by (metis prod.exhaust)
  obtain x2 s2 where r2: "(if \<not> requirements then run_effect (do_where st False False) s1
      else (None, s1)) = (x2, s2)" by (metis prod.exhaust)
  obtain x3 s3 where r3: "run_effect (do_create_virtualenv st) s2 = (x3, s3)" by (metis prod.exhaust)
  obtain x4 s4 where r4: "run_effect (cleanup_virtualenv st False) s3 = (x4, s4)" by (metis prod.exhaust)
  have c1: "calls s1 = calls s" using run_effect_calls'[OF r1] .
  have c2: "calls s2 = calls s"
    using r2 c1 by (auto split: if_splits dest: run_effect_calls')
  have c3: "calls s3 = calls s" using run_effect_calls'[OF r3] c2 by simp
  have c4: "calls s4 = calls s" using run_effect_calls'[OF r4] c3 by simp
  have "snd (do_init_prepare st requirements s) \<in> {s1, s2, s3, s4}"
    unfolding do_init_prepare_def r1 r2
    by (cases x1; cases x2; cases x3; cases x4)
       (auto simp: r1 r2 r3 r4 split: error.splits)
  then show ?thesis using c1 c2 c3 c4 by auto
qed

lemma do_lock_calls:
  "calls (snd (do_lock ctx nh v s)) = calls s @ [Call_do_lock nh v]"
proof (cases "do_lock ctx nh v s")
  case (Pair r s')
  show ?thesis
  proof (cases r)
    case (Inl e)
    with Pair do_lock_failure(3)[of ctx nh v s e s'] show ?thesis by simp
  next
    case (Inr u)
    with Pair do_lock_success[of ctx nh v s u s'] show ?thesis by auto
  qed
qed

lemma do_lock_keeps_lock:
  assumes "do_lock ctx nh v s = (Inr u, s')"
  shows "lockfile_exists ctx s'"
  using do_lock_success[OF assms] by (auto simp: lockfile_exists_def)

lemma lockfile_exists_echo [simp]:
  "lockfile_exists ctx (click_echo st text s) = lockfile_exists ctx s"
  by (simp add: lockfile_exists_def)

text \<open>The two steps of lines 641-659, by cases.\<close>

lemma update_stale_lock_skipped:
  assumes "\<not> lockfile_exists ctx s \<or> ignore_pipfile \<or> skip_lock"
  shows "update_stale_lock ctx nh ignore_pipfile skip_lock s = (Inr (), s)"
  using assms by (auto simp: update_stale_lock_def)

lemma update_stale_lock_checked:
  assumes "files s (lockfile_location ctx) = Some lock_text" and "json_loads ctx lock_text = Inr lockfile"
    and "recorded_hash lockfile = Inr h" and "\<not> ignore_pipfile" and "\<not> skip_lock"
  shows "update_stale_lock ctx nh ignore_pipfile skip_lock s =
     (if h \<noteq> JStr (pipfile_hash ctx)
      then do_lock ctx nh False
             (click_echo Stderr
                (crayons ctx ''red'' False ''Pipfile.lock out of date, updating...'') s)
      else (Inr (), s))"
  using assms by (simp add: update_stale_lock_def lockfile_exists_def)

lemma do_init_lock_calls:
  "(files s (lockfile_location ctx) = Some lock_text \<and> json_loads ctx lock_text = Inr lockfile
      \<and> recorded_hash lockfile = Inr h
    \<longrightarrow> calls (snd (do_init_lock ctx nh ignore_pipfile skip_lock s))
        = calls s @ (if \<not> ignore_pipfile \<and> \<not> skip_lock \<and> h \<noteq> JStr (pipfile_hash ctx)
                     then [Call_do_lock nh False] else []))
   \<and> (files s (lockfile_location ctx) = None
    \<longrightarrow> calls (snd (do_init_lock ctx nh ignore_pipfile skip_lock s))
        = calls s @ (if \<not> skip_lock then [Call_do_lock nh False] else []))"
proof (intro conjI impI)
  assume h: "files s (lockfile_location ctx) = Some lock_text \<and> json_loads ctx lock_text = Inr lockfile
      \<and> recorded_hash lockfile = Inr h"
  then have ex: "lockfile_exists ctx s" by (simp add: lockfile_exists_def)
  show "calls (snd (do_init_lock ctx nh ignore_pipfile skip_lock s))
        = calls s @ (if \<not> ignore_pipfile \<and> \<not> skip_lock \<and> h \<noteq> JStr (pipfile_hash ctx)
                     then [Call_do_lock nh False] else [])"
  proof (cases "\<not> ignore_pipfile \<and> \<not> skip_lock")
    case False
    then have "update_stale_lock ctx nh ignore_pipfile skip_lock s = (Inr (), s)"
      by (intro update_stale_lock_skipped) auto
    then show ?thesis
      using False ex by (auto simp: do_init_lock_def create_missing_lock_def)
  next
    case True
    have chk: "update_stale_lock ctx nh ignore_pipfile skip_lock s =
       (if h \<noteq> JStr (pipfile_hash ctx)
        then do_lock ctx nh False
               (click_echo Stderr
                  (crayons ctx ''red'' False ''Pipfile.lock out of date, updating...'') s)
        else (Inr (), s))"
      using h True by (intro update_stale_lock_checked) auto
    show ?thesis
    proof (cases "h = JStr (pipfile_hash ctx)")
      case same: True
      then have "update_stale_lock ctx nh ignore_pipfile skip_lock s = (Inr (), s)"
        using chk by simp
      then show ?thesis
        using same True ex by (simp add: do_init_lock_def create_missing_lock_def)
    next
      case differ: False
      let ?s0 = "click_echo Stderr
                (crayons ctx ''red'' False ''Pipfile.lock out of date, updating...'') s"
      have u: "update_stale_lock ctx nh ignore_pipfile skip_lock s = do_lock ctx nh False ?s0"
        using chk differ by simp
      obtain r s1 where l: "do_lock ctx nh False ?s0 = (r, s1)" by (metis prod.exhaust)
      have c1: "calls s1 = calls s @ [Call_do_lock nh False]"
        using do_lock_calls[of ctx nh False ?s0] l by simp
      show ?thesis
      proof (cases r)
        case (Inl e)
        then show ?thesis using u l c1 True differ by (simp add: do_init_lock_def)
      next
        case (Inr x)
        then have "lockfile_exists ctx s1" using do_lock_keeps_lock l by blast
        then show ?thesis
          using u l c1 True differ Inr by (simp add: do_init_lock_def create_missing_lock_def)
      qed
    qed
  qed
next
  assume none: "files s (lockfile_location ctx) = None"
  then have nex: "\<not> lockfile_exists ctx s" by (simp add: lockfile_exists_def)
  then have u: "update_stale_lock ctx nh ignore_pipfile skip_lock s = (Inr (), s)"
    by (intro update_stale_lock_skipped) auto
  show "calls (snd (do_init_lock ctx nh ignore_pipfile skip_lock s))
        = calls s @ (if \<not> skip_lock then [Call_do_lock nh False] else [])"
    using u nex do_lock_calls[of ctx nh False]
    by (simp add: do_init_lock_def create_missing_lock_def)
qed



text \<open>The calls of \<open>do_init\<close>: those of the locking step, then at most the installation.\<close>

lemma do_init_calls:
  "\<exists>installs.
      calls (snd (do_init ctx st dev req ag ih nh ip sl v s))
        = (case do_init_prepare st req s of
             (Inl e, s1) \<Rightarrow> calls s
           | (Inr u, s1) \<Rightarrow> calls (snd (do_init_lock ctx nh ip sl s1))) @ installs
    \<and> (installs = [] \<or> installs = [Call_do_install_dependencies dev False False req ag False sl v])
    \<and> (fst (do_init ctx st dev req ag ih nh ip sl v s) = Inr ()
         \<longrightarrow> installs = [Call_do_install_dependencies dev False False req ag False sl v])"
proof -
  obtain r1 s1 where p: "do_init_prepare st req s = (r1, s1)" by (metis prod.exhaust)
  have c1: "calls s1 = calls s" using do_init_prepare_calls[of st req s] p by simp
  show ?thesis
  proof (cases r1)
    case (Inl e)
    then show ?thesis using p c1 by (simp add: do_init_def)
  next
    case r1: (Inr u1)
    obtain r2 s2 where l: "do_init_lock ctx nh ip sl s1 = (r2, s2)" by (metis prod.exhaust)
    show ?thesis
    proof (cases r2)
      case (Inl e)
      then show ?thesis using p r1 l by (simp add: do_init_def)
    next
      case r2: (Inr u2)
      obtain r3 s3 where i: "do_install_dependencies ctx dev False False req ag False sl v s2
          = (r3, s3)" by (metis prod.exhaust)
      have c3: "calls s3 = calls s2 @ [Call_do_install_dependencies dev False False req ag False sl v]"
        using do_install_dependencies_calls[of ctx dev False False req ag False sl v s2] i by simp
      obtain x4 s4 where a: "run_effect (do_activate_virtualenv st) s3 = (x4, s4)"
        by (metis prod.exhaust)
      have c4: "calls s4 = calls s3" using run_effect_calls'[OF a] .
      have "calls (snd (do_init ctx st dev req ag ih nh ip sl v s))
          = calls s2 @ [Call_do_install_dependencies dev False False req ag False sl v]"
        using p r1 l r2 i a c3 c4
        by (cases r3; cases x4) (auto simp: do_init_def Let_def)
      then show ?thesis using p r1 l by simp
    qed
  qed
qed

lemma recorded_hash_cases:
  "py_getitem lockfile ''_meta'' = Inr (JDict meta) \<Longrightarrow> map_of meta ''hash'' = None
     \<Longrightarrow> recorded_hash lockfile = Inr JNull"
  "py_getitem lockfile ''_meta'' = Inr (JDict meta) \<Longrightarrow> map_of meta ''hash'' = Some (JDict hs)
     \<Longrightarrow> recorded_hash lockfile = Inr (case map_of hs ''sha256'' of None \<Rightarrow> JNull | Some x \<Rightarrow> x)"
  by (simp_all add: recorded_hash_def py_get_def)

lemma do_init_lock_calls_filtered:
  assumes prep: "do_init_prepare st req s = (Inr (), s1)"
    and lock: "calls (snd (do_init_lock ctx nh ip sl s1)) = calls s1 @ locks"
    and locks: "locks = [] \<or> locks = [Call_do_lock nh False]"
  shows "filter is_lock_call (calls (snd (do_init ctx st dev req ag ih nh ip sl v s)))
           = filter is_lock_call (calls s) @ locks"
proof -
  have c1: "calls s1 = calls s" using do_init_prepare_calls[of st req s] prep by simp
  obtain installs where
    c: "calls (snd (do_init ctx st dev req ag ih nh ip sl v s))
          = calls (snd (do_init_lock ctx nh ip sl s1)) @ installs"
    and i: "installs = [] \<or> installs = [Call_do_install_dependencies dev False False req ag False sl v]"
    using do_init_calls[of ctx st dev req ag ih nh ip sl v s] prep by auto
  have "filter is_lock_call installs = []" using i by (auto simp: is_lock_call_def)
  moreover have "filter is_lock_call locks = locks" using locks by (auto simp: is_lock_call_def)
  ultimately show ?thesis by (simp add: c lock c1)
qed

text \<open>
  Claim C1, amended. After the preparation of \<^verbatim>\<open>do_init\<close>: when the lock file exists
  and can be read, \<^verbatim>\<open>do_init\<close> calls \<^verbatim>\<open>do_lock\<close> (once, with its \<^verbatim>\<open>no_hashes\<close>) exactly
  when neither \<^verbatim>\<open>ignore_pipfile\<close> nor \<^verbatim>\<open>skip_lock\<close> is set and the value recorded under
  \<^verbatim>\<open>_meta.hash.sha256\<close> differs from the hash of the Pipfile; when the lock file is absent,
  it calls \<^verbatim>\<open>do_lock\<close> exactly when \<^verbatim>\<open>skip_lock\<close> is not set. A lock without a recorded
  hash (no \<^verbatim>\<open>hash\<close> key, or no \<^verbatim>\<open>sha256\<close> in it) records \<^verbatim>\<open>None\<close>, which differs from
  every hash.
\<close>

theorem stale_lock_decision:
  "(do_init_prepare st requirements s = (Inr (), s1)
      \<and> files s1 (lockfile_location ctx) = Some lock_text \<and> json_loads ctx lock_text = Inr lockfile
      \<and> recorded_hash lockfile = Inr h
    \<longrightarrow> filter is_lock_call
          (calls (snd (do_init ctx st dev requirements allow_global ignore_hashes no_hashes
                         ignore_pipfile skip_lock verbose s)))
        = filter is_lock_call (calls s)
          @ (if \<not> ignore_pipfile \<and> \<not> skip_lock \<and> h \<noteq> JStr (pipfile_hash ctx)
             then [Call_do_lock no_hashes False] else []))
   \<and> (do_init_prepare st requirements s = (Inr (), s1)
      \<and> files s1 (lockfile_location ctx) = None
    \<longrightarrow> filter is_lock_call
          (calls (snd (do_init ctx st dev requirements allow_global ignore_hashes no_hashes
                         ignore_pipfile skip_lock verbose s)))
        = filter is_lock_call (calls s)
          @ (if \<not> skip_lock then [Call_do_lock no_hashes False] else []))
   \<and> (py_getitem lockfile ''_meta'' = Inr (JDict meta) \<and> map_of meta ''hash'' = None
    \<longrightarrow> recorded_hash lockfile = Inr JNull)
   \<and> (py_getitem lockfile ''_meta'' = Inr (JDict meta) \<and> map_of meta ''hash'' = Some (JDict hs)
    \<longrightarrow> recorded_hash lockfile
        = Inr (case map_of hs ''sha256'' of None \<Rightarrow> JNull | Some x \<Rightarrow> x))"
proof (intro conjI impI)
  assume a: "do_init_prepare st requirements s = (Inr (), s1)
      \<and> files s1 (lockfile_location ctx) = Some lock_text \<and> json_loads ctx lock_text = Inr lockfile
      \<and> recorded_hash lockfile = Inr h"
  have "calls (snd (do_init_lock ctx no_hashes ignore_pipfile skip_lock s1))
        = calls s1 @ (if \<not> ignore_pipfile \<and> \<not> skip_lock \<and> h \<noteq> JStr (pipfile_hash ctx)
                     then [Call_do_lock no_hashes False] else [])"
    using do_init_lock_calls[of s1 ctx lock_text lockfile h no_hashes ignore_pipfile skip_lock] a
    by blast
  then show "filter is_lock_call
          (calls (snd (do_init ctx st dev requirements allow_global ignore_hashes no_hashes
                         ignore_pipfile skip_lock verbose s)))
        = filter is_lock_call (calls s)
          @ (if \<not> ignore_pipfile \<and> \<not> skip_lock \<and> h \<noteq> JStr (pipfile_hash ctx)
             then [Call_do_lock no_hashes False] else [])"
    using a by (intro do_init_lock_calls_filtered) auto
next
  assume a: "do_init_prepare st requirements s = (Inr (), s1)
      \<and> files s1 (lockfile_location ctx) = None"
  have "calls (snd (do_init_lock ctx no_hashes ignore_pipfile skip_lock s1))
        = calls s1 @ (if \<not> skip_lock then [Call_do_lock no_hashes False] else [])"
    using do_init_lock_calls[of s1 ctx _ _ _ no_hashes ignore_pipfile skip_lock] a
    by blast
  then show "filter is_lock_call
          (calls (snd (do_init ctx st dev requirements allow_global ignore_hashes no_hashes
                         ignore_pipfile skip_lock verbose s)))
        = filter is_lock_call (calls s)
          @ (if \<not> skip_lock then [Call_do_lock no_hashes False] else [])"
    using a by (intro do_init_lock_calls_filtered) auto
next
  assume "py_getitem lockfile ''_meta'' = Inr (JDict meta) \<and> map_of meta ''hash'' = None"
  then show "recorded_hash lockfile = Inr JNull"
    using recorded_hash_cases(1) by blast
next
  assume "py_getitem lockfile ''_meta'' = Inr (JDict meta) \<and> map_of meta ''hash'' = Some (JDict hs)"
  then show "recorded_hash lockfile
        = Inr (case map_of hs ''sha256'' of None \<Rightarrow> JNull | Some x \<Rightarrow> x)"
    using recorded_hash_cases(2) by blast
qed

lemma example_prepare:
  "do_init_prepare example_steps req s = (Inr (), s)"
  by (simp add: do_init_prepare_def example_steps_def run_effect_def)

lemma example_old_lock:
  "files locked_state (lockfile_location example_project) = Some ''old lock''"
  "json_loads example_project ''old lock'' = Inr (example_lock ''h0'')"
  "recorded_hash (example_lock ''h0'') = Inr (JStr ''h0'')"
  "pipfile_hash example_project = ''h1''"
  by (simp_all add: example_project_def locked_state_def example_state_def example_json_loads_def
        example_lock_def recorded_hash_def py_getitem_def py_get_def)

text \<open>
  Claim C1, as stated, fails: with \<^verbatim>\<open>skip_lock\<close> set, \<^verbatim>\<open>do_init\<close> does not call
  \<^verbatim>\<open>do_lock\<close> although the lock file exists and its recorded hash differs from the hash
  of the Pipfile.
\<close>

theorem stale_lock_counterexample:
  "files locked_state (lockfile_location example_project) = Some ''old lock''
   \<and> json_loads example_project ''old lock'' = Inr (example_lock ''h0'')
   \<and> recorded_hash (example_lock ''h0'') = Inr (JStr ''h0'')
   \<and> pipfile_hash example_project = ''h1''
   \<and> filter is_lock_call
        (calls (snd (do_init example_project example_steps False False False False True False True
                       False locked_state))) = []"
proof -
  have "calls (snd (do_init_lock example_project True False True locked_state))
      = calls locked_state @ []"
    using do_init_lock_calls[of locked_state example_project "''old lock''" "example_lock ''h0''"
        "JStr ''h0''" True False True] example_old_lock
    by simp
  then have "filter is_lock_call
        (calls (snd (do_init example_project example_steps False False False False True False True
                       False locked_state))) = filter is_lock_call (calls locked_state) @ []"
    by (intro do_init_lock_calls_filtered[OF example_prepare]) auto
  then show ?thesis
    using example_old_lock by (simp add: locked_state_def example_state_def)
qed

theorem stale_lock_decision_witness:
  "filter is_lock_call
     (calls (snd (do_init example_project example_steps False False False False True False False
                    False locked_state))) = [Call_do_lock True False]
   \<and> filter is_lock_call
     (calls (snd (do_init example_project example_steps False False False False True False False
                    False example_state))) = [Call_do_lock True False]
   \<and> recorded_hash (JDict [(''_meta'', JDict [])]) = Inr JNull
   \<and> recorded_hash (JDict [(''_meta'', JDict [(''hash'', JDict [])])]) = Inr JNull"
proof -
  have none: "files example_state (lockfile_location example_project) = None"
    by (simp add: example_state_def)
  have a: "filter is_lock_call
     (calls (snd (do_init example_project example_steps False False False False True False False
                    False locked_state)))
     = filter is_lock_call (calls locked_state)
       @ (if \<not> False \<and> \<not> False \<and> JStr ''h0'' \<noteq> JStr (pipfile_hash example_project)
          then [Call_do_lock True False] else [])"
    by (rule stale_lock_decision[where ?s1.0=locked_state and lock_text="''old lock''"
          and lockfile="example_lock ''h0''", THEN conjunct1, THEN mp])
       (simp add: example_prepare example_old_lock)
  have b: "filter is_lock_call
     (calls (snd (do_init example_project example_steps False False False False True False False
                    False example_state)))
     = filter is_lock_call (calls example_state)
       @ (if \<not> False then [Call_do_lock True False] else [])"
    by (rule stale_lock_decision[where ?s1.0=example_state, THEN conjunct2, THEN conjunct1, THEN mp])
       (simp add: example_prepare none)
  have c: "recorded_hash (JDict [(''_meta'', JDict [])]) = Inr JNull"
    by (rule stale_lock_decision[where meta="[]", THEN conjunct2, THEN conjunct2, THEN conjunct1,
          THEN mp])
       (simp add: py_getitem_def)
  have d: "recorded_hash (JDict [(''_meta'', JDict [(''hash'', JDict [])])])
      = Inr (case map_of ([] :: (string \<times> json) list) ''sha256'' of None \<Rightarrow> JNull | Some x \<Rightarrow> x)"
    by (rule stale_lock_decision[where meta="[(''hash'', JDict [])]", THEN conjunct2,
          THEN conjunct2, THEN conjunct2, THEN mp])
       (simp add: py_getitem_def)
  show ?thesis
    using a b c d example_old_lock(4) by (simp add: locked_state_def example_state_def)
qed




end
